theory Spec2Isabelle
  imports Main "HOL-Library.Word"
begin

unbundle bit_operations_syntax

text \<open>
  A model of the MACRO-10 mini-assembler of PCjs,
  \<open>modules/pdp10/lib/macro10.js\<close>, and proofs about it. The assembler's state is a
  record that every operation takes and returns; a thrown error is a value. Numbers are
  integers (the source keeps 36-bit words in JavaScript numbers, which are exact far beyond
  2^36), strings are lists of 8-bit characters (the assembler's sources are ASCII text).
  The host debugger, the string library and the PDP-10 definitions are separate files; what
  the assembler uses of them is a parameter or is modelled from the specification, and is
  marked so.
\<close>

section \<open>JavaScript values used by macro10.js\<close>

text \<open>
  A JavaScript array is sparse: an index holds a value or is a hole, writing past the end
  extends the array, and a negative index is an ordinary property that neither
  \<open>length\<close> nor \<open>forEach\<close> sees. \<open>elems\<close> is the property table,
  \<open>alength\<close> the \<open>length\<close> property.
\<close>

record 'a jsarray =
  elems :: "int \<Rightarrow> 'a option"
  alength :: nat

definition js_empty :: "'a jsarray" where
  "js_empty = \<lparr>elems = (\<lambda>i. None), alength = 0\<rparr>"

definition js_get :: "'a jsarray \<Rightarrow> int \<Rightarrow> 'a option" where
  "js_get a i = elems a i"

definition js_set :: "'a jsarray \<Rightarrow> int \<Rightarrow> 'a \<Rightarrow> 'a jsarray" where
  "js_set a i v =
     \<lparr>elems = (elems a)(i := Some v),
      alength = (if 0 \<le> i then max (alength a) (nat i + 1) else alength a)\<rparr>"

text \<open>\<open>forEach\<close> visits the indices below \<open>length\<close> that hold a value, in ascending order.\<close>

definition js_forEach :: "'a jsarray \<Rightarrow> (int \<times> 'a) list" where
  "js_forEach a =
     List.map_filter (\<lambda>k. map_option (Pair (int k)) (elems a (int k))) [0..<alength a]"

text \<open>The array literal \<open>[x0, x1, ...]\<close>: a dense array.\<close>

definition js_of_list :: "'a list \<Rightarrow> 'a jsarray" where
  "js_of_list xs =
     \<lparr>elems = (\<lambda>i. if 0 \<le> i \<and> nat i < length xs then Some (xs ! nat i) else None),
      alength = length xs\<rparr>"

text \<open>
  The bitwise operators \<open>&\<close> and \<open>|\<close> convert both operands to 32-bit signed
  integers (ToInt32) and return a 32-bit signed integer.
\<close>

definition js_and :: "int \<Rightarrow> int \<Rightarrow> int" where
  "js_and a b = sint ((word_of_int a :: 32 word) AND word_of_int b)"

definition js_or :: "int \<Rightarrow> int \<Rightarrow> int" where
  "js_or a b = sint ((word_of_int a :: 32 word) OR word_of_int b)"

text \<open>\<open>String(n)\<close> of a non-negative integer: its decimal digits.\<close>

definition digit_char :: "nat \<Rightarrow> char" where
  "digit_char d = char_of (48 + d)"

function js_string_of_nat :: "nat \<Rightarrow> string" where
  "js_string_of_nat n =
     (if n < 10 then [digit_char n] else js_string_of_nat (n div 10) @ [digit_char (n mod 10)])"
  by pat_completeness auto
termination
  by (relation "measure id") auto

declare js_string_of_nat.simps [simp del]

text \<open>\<open>s.toUpperCase()\<close>, on ASCII text: the letters a to z move to A to Z.\<close>

definition js_toUpper_char :: "char \<Rightarrow> char" where
  "js_toUpper_char c =
     (if 97 \<le> (of_char c :: nat) \<and> (of_char c :: nat) \<le> 122
      then char_of ((of_char c :: nat) - 32) else c)"

definition js_toUpperCase :: "string \<Rightarrow> string" where
  "js_toUpperCase s = map js_toUpper_char s"

section \<open>The collaborators outside the source file\<close>

text \<open>
  The host debugger (\<open>this.dbg\<close>) is not part of the assembler. Its state, as far as the
  assembler touches it: the variable table that \<open>setVariable\<close> fills, the marker
  \<open>sUndefined\<close> that its expression parser leaves behind, and the lines handed to
  \<open>println\<close>.
\<close>

record dbg =
  vars :: "string \<rightharpoonup> int"
  sUndefined :: "string option"
  printed :: "string list"

text \<open>
  The functions and constants the assembler calls but does not define are parameters:
  \<open>Str.toDec\<close> and \<open>Str.toOct\<close> of the string library, the host's
  \<open>toStrBase(n, -1)\<close> and \<open>parseExpression(text, fPass1)\<close> (a result of
  \<open>None\<close> is JavaScript's \<open>undefined\<close>), the four instruction field masks
  of \<open>PDP10.OPCODE\<close>, and the message of the TypeError that the
  engine throws where a property, given by name, is read of \<open>undefined\<close>.
\<close>

record env =
  Str_toDec :: "nat \<Rightarrow> string"
  Str_toOct :: "int \<Rightarrow> string"
  dbg_toStrBase :: "int \<Rightarrow> string"
  dbg_parseExpression :: "dbg \<Rightarrow> string \<Rightarrow> bool \<Rightarrow> int option \<times> dbg"
  A_FIELD :: int
  X_FIELD :: int
  Y_FIELD :: int
  I_FIELD :: int
  js_TypeError :: "string \<Rightarrow> string"

text \<open>
  Modelled from the spec: \<open>dbg.truncate(n, bits, unsigned)\<close> is defined in the host
  debugger, which is not among the source files. The spec gives it as the truncation of a
  signed integer to \<open>bits\<close> bits; the assembler only ever asks for the unsigned result.
\<close>

definition dbg_truncate :: "int \<Rightarrow> nat \<Rightarrow> bool \<Rightarrow> int" where
  "dbg_truncate v nBits fUnsigned =
     (if fUnsigned then v mod 2 ^ nBits
      else ((v + 2 ^ (nBits - 1)) mod 2 ^ nBits) - 2 ^ (nBits - 1))"

text \<open>
  Modelled from the spec: \<open>dbg.println\<close>, \<open>dbg.setVariable\<close>,
  \<open>dbg.resetVariables\<close> and \<open>dbg.restoreVariables\<close> are host functions outside
  the source files. The spec has \<open>println\<close> as a sink for diagnostic lines, the
  variable table mirroring every symbol insertion, and the table snapshotted before the
  main pass and restored after it.
\<close>

definition dbg_println :: "dbg \<Rightarrow> string \<Rightarrow> dbg" where
  "dbg_println d s = d\<lparr>printed := printed d @ [s]\<rparr>"

definition dbg_setVariable :: "dbg \<Rightarrow> string \<Rightarrow> int \<Rightarrow> dbg" where
  "dbg_setVariable d name v = d\<lparr>vars := (vars d)(name \<mapsto> v)\<rparr>"

definition dbg_resetVariables :: "dbg \<Rightarrow> (string \<rightharpoonup> int) \<times> dbg" where
  "dbg_resetVariables d = (vars d, d\<lparr>vars := Map.empty\<rparr>)"

definition dbg_restoreVariables :: "dbg \<Rightarrow> (string \<rightharpoonup> int) \<Rightarrow> dbg" where
  "dbg_restoreVariables d a = d\<lparr>vars := a\<rparr>"

text \<open>\<open>PDP10.INT_LIMIT\<close> and \<open>PDP10.WORD_LIMIT\<close>, given in the spec's data model.\<close>

definition INT_LIMIT :: int where
  "INT_LIMIT = 2 ^ 35"

definition WORD_LIMIT :: int where
  "WORD_LIMIT = 2 ^ 36"

section \<open>The assembler's state\<close>

record Sym =
  sym_name :: string
  sym_value :: int
  sym_nType :: nat
  sym_nLine :: nat

record Mac =
  mac_name :: string
  mac_nOperand :: int
  mac_aParms :: "string list"
  mac_aDefaults :: "string list"
  mac_aValues :: "string list"
  mac_sText :: string
  mac_nLine :: nat

text \<open>
  The local variables with which \<open>defMacro\<close> leaves the branch of its operator and
  goes on to enter the block in the macro table: \<open>name\<close>, \<open>nOperand\<close>, \<open>aParms\<close>,
  \<open>aValues\<close>, and the groups \<open>match[iMatch]\<close> and \<open>match[iMatch + 1]\<close>.
\<close>

record MacroHead =
  mh_name :: string
  mh_nOperand :: int
  mh_aParms :: "string list"
  mh_aValues :: "string list"
  mh_open :: string
  mh_text :: string

record Lit =
  lit_name :: string
  lit_aWords :: "int jsarray"
  lit_aFixups :: "string jsarray"

record Scope =
  scope_name :: "string option"
  scope_aWords :: "int jsarray"
  scope_aFixups :: "string jsarray"
  scope_nLocation :: int
  scope_nLocationScope :: int
  scope_nLine :: nat

record macro10 =
  sOptions :: string
  asLines :: "string list"
  addrLoad :: "int option"
  addrStart :: "int option option"
  tblMacros :: "string \<rightharpoonup> Mac"
  tblSymbols :: "string \<rightharpoonup> Sym"
  aLiterals :: "Lit list"
  aVariables :: "string list"
  aWords :: "int jsarray"
  aFixups :: "string jsarray"
  nLine :: nat
  nError :: int
  nLiteral :: nat
  nLocation :: int
  nLocationScope :: int
  stackScopes :: "Scope list"
  sOperator :: "string option"
  nMacroDef :: nat
  sMacroDef :: "string option"
  chASCII :: "char option option"
  sASCII :: string
  host :: dbg

text \<open>
  \<open>chASCII\<close> is \<open>null\<close> (\<open>None\<close>), the empty string (\<open>Some None\<close>) or the one
  delimiter character of the ASCII pseudo-op being collected. \<open>addrStart\<close> is \<open>null\<close>
  (\<open>None\<close>), \<open>undefined\<close> (\<open>Some None\<close>) or an address.
\<close>

text \<open>The symbol type flags \<open>Macro10.SYMTYPE\<close> and the pseudo-op names used below.\<close>

definition SYMTYPE_LABEL :: nat where
  "SYMTYPE_LABEL = 1"

definition SYMTYPE_PRIVATE :: nat where
  "SYMTYPE_PRIVATE = 2"

definition SYMTYPE_INTERNAL :: nat where
  "SYMTYPE_INTERNAL = 4"

definition PSEUDO_OP_ASCIZ :: string where
  "PSEUDO_OP_ASCIZ = ''ASCIZ''"

definition PSEUDO_OP_SIXBIT :: string where
  "PSEUDO_OP_SIXBIT = ''SIXBIT''"

text \<open>The state the constructor sets up for a load address and an option string.\<close>

definition macro10_init :: "int option \<Rightarrow> string \<Rightarrow> dbg \<Rightarrow> macro10" where
  "macro10_init addr opts d =
     \<lparr>sOptions = opts, asLines = [], addrLoad = addr, addrStart = None,
      tblMacros = Map.empty, tblSymbols = Map.empty, aLiterals = [], aVariables = [],
      aWords = js_empty, aFixups = js_empty, nLine = 0, nError = 0, nLiteral = 0,
      nLocation = (case addr of None \<Rightarrow> 0 | Some a \<Rightarrow> a), nLocationScope = - 1,
      stackScopes = [], sOperator = None, nMacroDef = 0, sMacroDef = None,
      chASCII = None, sASCII = [], host = d\<rparr>"

section \<open>Errors, warnings and word emission\<close>

text \<open>
  \<open>error(sError)\<close> is the only \<open>throw\<close> of the file. A thrown exception is the
  \<open>Inl\<close> of a result; it carries the message and the state the assembler was in,
  since everything an operation has written so far stays written.
\<close>

type_synonym 'a result = "(string \<times> macro10) + 'a"

definition error_message :: "env \<Rightarrow> macro10 \<Rightarrow> string \<Rightarrow> string" where
  "error_message E st sError =
     ''error'' @ (if nLine st \<noteq> 0 then '' at line '' @ Str_toDec E (nLine st) else [])
       @ '': '' @ sError"

definition error :: "env \<Rightarrow> macro10 \<Rightarrow> string \<Rightarrow> 'a result" where
  "error E st sError = Inl (error_message E st sError, st)"

definition println :: "macro10 \<Rightarrow> string \<Rightarrow> macro10" where
  "println st s = st\<lparr>host := dbg_println (host st) s\<rparr>"

definition warning :: "env \<Rightarrow> macro10 \<Rightarrow> string \<Rightarrow> macro10" where
  "warning E st sWarning =
     println st
       (''warning'' @ (if nLine st \<noteq> 0 then '' at line '' @ Str_toDec E (nLine st) else [])
          @ '': '' @ sWarning)"

definition truncate :: "env \<Rightarrow> macro10 \<Rightarrow> int \<Rightarrow> int \<Rightarrow> int \<times> macro10" where
  "truncate E st v loc =
     (let w = dbg_truncate v 36 True
      in if v < - INT_LIMIT \<or> WORD_LIMIT \<le> v
         then (w, warning E st
                 (''truncated value '' @ Str_toOct E v @ '' at location '' @ Str_toOct E loc
                    @ '' to '' @ Str_toOct E w))
         else (w, st))"

definition genWord :: "env \<Rightarrow> macro10 \<Rightarrow> int \<Rightarrow> string option \<Rightarrow> macro10" where
  "genWord E st v sFixup =
     (let (w, st1) = truncate E st v (nLocation st);
          st2 = st1\<lparr>aWords := js_set (aWords st1) (nLocation st1) w\<rparr>;
          st3 = (case sFixup of
                   None \<Rightarrow> st2
                 | Some f \<Rightarrow> st2\<lparr>aFixups := js_set (aFixups st2) (nLocation st2) f\<rparr>)
      in st3\<lparr>nLocation := nLocation st3 + 1\<rparr>)"

section \<open>ASCII, ASCIZ and SIXBIT data\<close>

text \<open>
  \<open>sASCII.charCodeAt(i) & 0o177\<close>: past the end of the string \<open>charCodeAt\<close> is NaN,
  which the mask turns into 0.
\<close>

definition charCode7 :: "string \<Rightarrow> nat \<Rightarrow> int" where
  "charCode7 s i = (if i < length s then int (of_char (s ! i)) mod 128 else 0)"

text \<open>
  The body of the \<open>for\<close> loop of \<open>genASCII\<close> at index \<open>i\<close>. The loop's variables
  are \<open>n\<close> (characters in the current word), \<open>w\<close> (the current word), \<open>shift\<close>
  and \<open>bits\<close>; the last two are unset until the first pass through the loop sets them.
\<close>

definition genASCII_body ::
  "env \<Rightarrow> nat \<Rightarrow> (nat \<times> int \<times> int \<times> int) \<times> macro10 \<Rightarrow> (nat \<times> int \<times> int \<times> int) \<times> macro10" where
  "genASCII_body E i x =
     (case x of ((n, w, shift, bits), st) \<Rightarrow>
        let (w1, shift1, bits1) =
              (if n = 0
               then (if sOperator st = Some PSEUDO_OP_SIXBIT then (0, 30, 6) else (0, 29, 7))
               else (w, shift, bits));
            c = charCode7 (sASCII st) i;
            c1 = (if bits1 = 6
                  then (let c' = (if 97 \<le> c \<and> c \<le> 122 then c - 32 else c)
                        in (c' + 32) mod 64)
                  else c);
            w2 = w1 + c1 * 2 ^ nat shift1;
            shift2 = shift1 - bits1;
            n2 = n + 1
        in if shift2 < 0 then ((0, w2, shift2, bits1), genWord E st w2 None)
           else ((n2, w2, shift2, bits1), st))"

function genASCII_for ::
  "env \<Rightarrow> nat \<Rightarrow> nat \<Rightarrow> (nat \<times> int \<times> int \<times> int) \<times> macro10 \<Rightarrow> (nat \<times> int \<times> int \<times> int) \<times> macro10" where
  "genASCII_for E cch i x =
     (if i < cch then genASCII_for E cch (i + 1) (genASCII_body E i x) else x)"
  by pat_completeness auto
termination
  by (relation "measure (\<lambda>(E, cch, i, x). cch - i)") auto

declare genASCII_for.simps [simp del]

definition genASCII :: "env \<Rightarrow> macro10 \<Rightarrow> macro10" where
  "genASCII E st =
     (let cch = length (sASCII st) + (if sOperator st = Some PSEUDO_OP_ASCIZ then 1 else 0);
          ((n, w, shift, bits), st1) = genASCII_for E cch 0 ((0, 0, 0, 0), st)
      in if n \<noteq> 0 then genWord E st1 w None else st1)"

text \<open>
  \<open>defASCII(sOperands)\<close>: the first character of the operands is the delimiter, the text
  up to the next delimiter is collected (over several lines if need be), and once the
  delimiter has closed the text \<open>genASCII\<close> emits it. The result is the text left over
  and the new state.
\<close>

definition indexOf_char :: "string \<Rightarrow> char \<Rightarrow> nat option" where
  "indexOf_char s c = (if c \<in> set s then Some (length (takeWhile (\<lambda>x. x \<noteq> c) s)) else None)"

definition defASCII :: "env \<Rightarrow> macro10 \<Rightarrow> string \<Rightarrow> string \<times> macro10" where
  "defASCII E st sOperands0 =
     (let (st1, sOperands, sRemain) =
            (if chASCII st = None
             then (let st' = st\<lparr>chASCII := Some None, sASCII := []\<rparr>
                   in case sOperands0 of
                        [] \<Rightarrow> (st', sOperands0, sOperands0)
                      | c # cs \<Rightarrow> (st'\<lparr>chASCII := Some (Some c)\<rparr>, cs, cs))
             else (st, sOperands0, sOperands0));
          (st2, sRemain2) =
            (case chASCII st1 of
               Some (Some d) \<Rightarrow>
                 (case indexOf_char sOperands d of
                    None \<Rightarrow> (st1\<lparr>sASCII := sASCII st1 @ sOperands\<rparr>, [])
                  | Some i \<Rightarrow>
                      (st1\<lparr>chASCII := None, sASCII := sASCII st1 @ take i sOperands\<rparr>,
                       drop (i + 1) sOperands))
             | _ \<Rightarrow> (st1, sRemain));
          st3 = (if chASCII st2 = None then genASCII E st2 else st2)
      in (sRemain2, st3))"

section \<open>Scopes\<close>

definition pushScope :: "macro10 \<Rightarrow> string option \<Rightarrow> macro10" where
  "pushScope st name =
     (let st1 = st\<lparr>stackScopes := stackScopes st @
                  [\<lparr>scope_name = name, scope_aWords = aWords st, scope_aFixups = aFixups st,
                    scope_nLocation = nLocation st, scope_nLocationScope = nLocationScope st,
                    scope_nLine = nLine st\<rparr>]\<rparr>;
          st2 = st1\<lparr>aWords := js_empty, aFixups := js_empty\<rparr>;
          st3 = (if nLocationScope st2 < 0 then st2\<lparr>nLocationScope := nLocation st2\<rparr> else st2)
      in st3\<lparr>nLocation := 0\<rparr>)"

text \<open>\<open>if (name)\<close>: a name that is \<open>undefined\<close> or the empty string is falsy.\<close>

definition popScope :: "env \<Rightarrow> macro10 \<Rightarrow> macro10 result" where
  "popScope E st =
     (if stackScopes st = [] then error E st ''scope nesting error''
      else
        let name = scope_name (last (stackScopes st));
            st1 = (case name of
                     None \<Rightarrow> st
                   | Some nm \<Rightarrow>
                       if nm = [] then st
                       else st\<lparr>aLiterals := aLiterals st @
                              [\<lparr>lit_name = nm, lit_aWords = aWords st, lit_aFixups = aFixups st\<rparr>]\<rparr>);
            scope = last (stackScopes st1);
            st2 = st1\<lparr>stackScopes := butlast (stackScopes st1)\<rparr>;
            st3 = st2\<lparr>aWords := scope_aWords scope, aFixups := scope_aFixups scope,
                      nLocation := scope_nLocation scope,
                      nLocationScope := scope_nLocationScope scope\<rparr>
        in if stackScopes st3 = [] \<and> nLocationScope st3 \<noteq> - 1
           then error E st3 ''scope restore error''
           else Inr st3)"

section \<open>Expressions\<close>

text \<open>The character classes of the regular expressions: \<open>[0-9]\<close>, \<open>\s\<close>, and
  the line terminators that \<open>.\<close> does not match.\<close>

definition is_digit :: "char \<Rightarrow> bool" where
  "is_digit c = (48 \<le> (of_char c :: nat) \<and> (of_char c :: nat) \<le> 57)"

definition is_space :: "char \<Rightarrow> bool" where
  "is_space c = ((of_char c :: nat) \<in> {9, 10, 11, 12, 13, 32, 160})"

definition is_lineTerminator :: "char \<Rightarrow> bool" where
  "is_lineTerminator c = ((of_char c :: nat) \<in> {10, 13})"

text \<open>
  \<open>sOperand.match(/^([^,]*),,([^,]*)$/)\<close>: the text has exactly two commas, and
  they are adjacent. The result is the pair of groups.
\<close>

definition matchDoubleComma :: "string \<Rightarrow> (string \<times> string) option" where
  "matchDoubleComma s =
     (case dropWhile (\<lambda>c. c \<noteq> CHR '','') s of
        c1 # c2 # r \<Rightarrow>
          if c2 = CHR '','' \<and> CHR '','' \<notin> set r
          then Some (takeWhile (\<lambda>c. c \<noteq> CHR '','') s, r) else None
      | _ \<Rightarrow> None)"

text \<open>
  \<open>(.*?)\1\<close> after the delimiter \<open>d\<close>: the text up to the next \<open>d\<close>, which
  must come before any line terminator. The result is the group and how many characters
  were read, the closing delimiter included.
\<close>

fun closeDelim :: "char \<Rightarrow> string \<Rightarrow> (string \<times> nat) option" where
  "closeDelim d [] = None"
| "closeDelim d (c # cs) =
     (if c = d then Some ([], 1)
      else if is_lineTerminator c then None
      else map_option (\<lambda>(body, k). (c # body, k + 1)) (closeDelim d cs))"

text \<open>
  \<open>/KW\s*(\S)(.*?)\1/\<close> tried at the start of \<open>s\<close>: the second group, and the
  length of the match.
\<close>

definition matchPseudo :: "string \<Rightarrow> string \<Rightarrow> (string \<times> nat) option" where
  "matchPseudo kw s =
     (if take (length kw) s = kw
      then (let t = drop (length kw) s;
                sp = length (takeWhile is_space t)
            in case dropWhile is_space t of
                 [] \<Rightarrow> None
               | d # u \<Rightarrow>
                   map_option (\<lambda>(body, k). (body, length kw + sp + 1 + k)) (closeDelim d u))
      else None)"

text \<open>
  \<open>s.replace(/KW\s*(\S)(.*?)\1/g, q + "$2" + q)\<close>: every match, left to right, is
  replaced by its second group between two quote characters \<open>q\<close>.
\<close>

fun replacePseudo :: "string \<Rightarrow> char \<Rightarrow> string \<Rightarrow> string" where
  "replacePseudo kw q [] = []"
| "replacePseudo kw q (c # cs) =
     (case matchPseudo kw (c # cs) of
        Some (body, k) \<Rightarrow> q # body @ q # replacePseudo kw q (drop (k - 1) cs)
      | None \<Rightarrow> c # replacePseudo kw q cs)"

text \<open>
  \<open>s.replace(/\.([^0-9]|$)/g, loc + "$1")\<close>: a match is a period with the character
  after it, when that is not a digit, or a period at the very end. The character after
  the period belongs to the match, so the search goes on behind it. \<open>loc\<close> is the
  host's rendering of a location, which has no \<open>$\<close> in it.
\<close>

fun replacePeriod :: "string \<Rightarrow> string \<Rightarrow> string" where
  "replacePeriod loc [] = []"
| "replacePeriod loc [c] = (if c = CHR ''.'' then loc else [c])"
| "replacePeriod loc (c # d # cs) =
     (if c = CHR ''.'' \<and> \<not> is_digit d then loc @ d # replacePeriod loc cs
      else c # replacePeriod loc (d # cs))"

text \<open>The location that stands for a period when the caller names none.\<close>

definition currentLocation :: "macro10 \<Rightarrow> int option \<Rightarrow> int" where
  "currentLocation st nLoc =
     (case nLoc of
        None \<Rightarrow> (if 0 \<le> nLocationScope st then nLocationScope st else nLocation st)
      | Some l \<Rightarrow> l)"

text \<open>The text handed to the host's parser in the branch without a double comma.\<close>

definition rewritePseudos :: "string \<Rightarrow> string" where
  "rewritePseudos s = replacePseudo ''ASCII'' (CHR 0x22) (replacePseudo ''SIXBIT'' (CHR 0x27) s)"

definition hostText :: "env \<Rightarrow> macro10 \<Rightarrow> string \<Rightarrow> int option \<Rightarrow> string" where
  "hostText E st sOperand nLoc =
     replacePeriod (dbg_toStrBase E (currentLocation st nLoc)) (rewritePseudos sOperand)"

text \<open>
  \<open>parseExpression(sOperand, fPass1, nLocation)\<close>. \<open>fPass1\<close> is \<open>true\<close> or left out;
  the result \<open>None\<close> is \<open>undefined\<close>.
\<close>

function parseExpression ::
  "env \<Rightarrow> macro10 \<Rightarrow> string \<Rightarrow> bool \<Rightarrow> int option \<Rightarrow> (int option \<times> macro10) result" where
  "parseExpression E st sOperand fPass1 nLoc =
     (case matchDoubleComma sOperand of
        None \<Rightarrow>
          (let (r, d) = dbg_parseExpression E (host st) (hostText E st sOperand nLoc) fPass1;
               st1 = st\<lparr>host := d\<rparr>
           in case r of
                None \<Rightarrow> error E st1 (''error parsing expression: '' @ rewritePseudos sOperand)
              | Some v \<Rightarrow> Inr (Some v, st1))
      | Some (l, r) \<Rightarrow>
          (case (if l \<noteq> [] then parseExpression E st l fPass1 nLoc else Inr (Some 0, st)) of
             Inl e \<Rightarrow> Inl e
           | Inr (None, st1) \<Rightarrow> Inr (None, st1)
           | Inr (Some wLeft, st1) \<Rightarrow>
               (case (if r \<noteq> [] then parseExpression E st1 r fPass1 nLoc else Inr (Some 0, st1)) of
                  Inl e \<Rightarrow> Inl e
                | Inr (None, st2) \<Rightarrow> Inr (None, st2)
                | Inr (Some wRight, st2) \<Rightarrow>
                    Inr (Some (dbg_truncate wLeft 18 True * 2 ^ 18 + dbg_truncate wRight 18 True),
                         st2))))"
  by pat_completeness auto
termination
proof (relation "measure (\<lambda>(E, st, s, f, n). length s)")
  show "wf (measure (\<lambda>(E, st, s, f, n). length s))"
    by simp
next
  fix E :: env and st :: macro10 and sOperand :: string and fPass1 :: bool
    and nLoc :: "int option" and x2 :: "string \<times> string" and l r :: string
  assume m: "matchDoubleComma sOperand = Some x2" and x: "(l, r) = x2"
  from m x obtain c1 c2 where
    d: "dropWhile (\<lambda>c. c \<noteq> CHR '','') sOperand = c1 # c2 # r"
    and t: "l = takeWhile (\<lambda>c. c \<noteq> CHR '','') sOperand"
    by (auto simp add: matchDoubleComma_def split: list.splits if_splits)
  have "length (takeWhile (\<lambda>c. c \<noteq> CHR '','') sOperand)
      + length (dropWhile (\<lambda>c. c \<noteq> CHR '','') sOperand) = length sOperand"
    by (metis length_append takeWhile_dropWhile_id)
  then have len: "length l + length r + 2 = length sOperand"
    using d t by simp
  show "((E, st, l, fPass1, nLoc), E, st, sOperand, fPass1, nLoc)
      \<in> measure (\<lambda>(E, st, s, f, n). length s)"
    using len by simp
  fix st1 :: macro10
  show "((E, st1, r, fPass1, nLoc), E, st, sOperand, fPass1, nLoc)
      \<in> measure (\<lambda>(E, st, s, f, n). length s)"
    using len by simp
qed

declare parseExpression.simps [simp del]

section \<open>Pseudo-ops EXP and XWD\<close>

definition defEXP :: "env \<Rightarrow> macro10 \<Rightarrow> string \<Rightarrow> macro10 result" where
  "defEXP E st sOperands =
     (case parseExpression E st sOperands True None of
        Inl e \<Rightarrow> Inl e
      | Inr (Some w, st1) \<Rightarrow> Inr (genWord E st1 w (sUndefined (host st1)))
      | Inr (None, st1) \<Rightarrow> error E st1 (''unrecognized expression: '' @ sOperands))"

text \<open>\<open>s.replace(",", ",,")\<close> with a string pattern replaces the first comma only.\<close>

definition replaceFirstComma :: "string \<Rightarrow> string" where
  "replaceFirstComma s =
     (case dropWhile (\<lambda>c. c \<noteq> CHR '','') s of
        [] \<Rightarrow> s
      | c # r \<Rightarrow> takeWhile (\<lambda>c. c \<noteq> CHR '','') s @ '',,'' @ r)"

definition defXWD :: "env \<Rightarrow> macro10 \<Rightarrow> string \<Rightarrow> macro10 result" where
  "defXWD E st sOperands = defEXP E st (replaceFirstComma sOperands)"

section \<open>Symbols\<close>

text \<open>The value handed to \<open>addSymbol\<close> is a number or the text of an expression.\<close>

datatype symval = Num int | Str string

definition addSymbol :: "env \<Rightarrow> macro10 \<Rightarrow> string \<Rightarrow> symval \<Rightarrow> nat \<Rightarrow> macro10 result" where
  "addSymbol E st name0 val nType =
     (let name = take 6 (js_toUpperCase name0)
      in if nType AND SYMTYPE_LABEL \<noteq> 0 \<and> tblSymbols st name \<noteq> None
         then error E st (''label '' @ name @ '' redefined'')
         else
           (case (case val of
                    Num v \<Rightarrow> Inr (Some v, st)
                  | Str s \<Rightarrow> parseExpression E st s False None) of
              Inl e \<Rightarrow> Inl e
            | Inr (None, st1) \<Rightarrow>
                error E st1 (''parseExpression('' @ (case val of Str s \<Rightarrow> s | Num v \<Rightarrow> []) @ '')'')
            | Inr (Some v, st1) \<Rightarrow>
                (let sym = (case tblSymbols st1 name of
                              Some old \<Rightarrow> old\<lparr>sym_value := v, sym_nType := nType, sym_nLine := nLine st1\<rparr>
                            | None \<Rightarrow> \<lparr>sym_name = name, sym_value = v, sym_nType = nType,
                                       sym_nLine = nLine st1\<rparr>);
                     st2 = st1\<lparr>tblSymbols := (tblSymbols st1)(name \<mapsto> sym)\<rparr>
                 in Inr (st2\<lparr>host := dbg_setVariable (host st2) name v\<rparr>))))"

section \<open>OPDEF invocation\<close>

text \<open>
  The two assignments of \<open>parseMacro\<close> that merge the operand word \<open>w\<close> into the
  word at the invocation's location:
  \<open>aWords[nLocation] += (w & (A_FIELD | X_FIELD | Y_FIELD))\<close> and
  \<open>aWords[nLocation] |= (w & I_FIELD)\<close>. Adding to a hole gives NaN, which \<open>|=\<close>
  reads as 0.
\<close>

definition opdefMergeWord :: "env \<Rightarrow> int option \<Rightarrow> int \<Rightarrow> int" where
  "opdefMergeWord E cur w =
     js_or (case cur of
              None \<Rightarrow> 0
            | Some c \<Rightarrow> c + js_and w (js_or (js_or (A_FIELD E) (X_FIELD E)) (Y_FIELD E)))
           (js_and w (I_FIELD E))"

text \<open>
  The fixup of the operand scope, when it is a non-empty string, is installed at the
  location or appended to the non-empty fixup already there.
\<close>

definition opdefMergeFixup :: "string jsarray \<Rightarrow> int \<Rightarrow> string option \<Rightarrow> string jsarray" where
  "opdefMergeFixup fixups loc sFixup =
     (case sFixup of
        None \<Rightarrow> fixups
      | Some f \<Rightarrow>
          if f = [] then fixups
          else (case js_get fixups loc of
                  None \<Rightarrow> js_set fixups loc f
                | Some g \<Rightarrow> if g = [] then js_set fixups loc f
                            else js_set fixups loc (g @ ''+'' @ f)))"

text \<open>
  The OPDEF branch of \<open>parseMacro(name, sOperands)\<close>. \<open>parseText\<close>, which runs the
  whole line parser over a text, is a parameter here.
\<close>

definition parseMacro_OPDEF ::
  "env \<Rightarrow> (macro10 \<Rightarrow> string \<Rightarrow> macro10 result) \<Rightarrow> macro10 \<Rightarrow> Mac \<Rightarrow> string \<Rightarrow> string
     \<Rightarrow> (bool \<times> macro10) result" where
  "parseMacro_OPDEF E parseText st macro name sOperands =
     (let loc = nLocation st
      in case parseText st (mac_sText macro) of
           Inl e \<Rightarrow> Inl e
         | Inr st1 \<Rightarrow>
             if loc < nLocation st1
             then (case parseText (pushScope st1 None) sOperands of
                     Inl e \<Rightarrow> Inl e
                   | Inr st2 \<Rightarrow>
                       (let w = js_get (aWords st2) 0;
                            sFixup = js_get (aFixups st2) 0
                        in case popScope E st2 of
                             Inl e \<Rightarrow> Inl e
                           | Inr st3 \<Rightarrow>
                               (case w of
                                  None \<Rightarrow>
                                    error E st3 (''OPDEF '' @ [CHR 0x27] @ name @ [CHR 0x27]
                                                   @ '' error: '' @ sOperands)
                                | Some wv \<Rightarrow>
                                    Inr (True,
                                      st3\<lparr>aWords := js_set (aWords st3) loc
                                                       (opdefMergeWord E (js_get (aWords st3) loc) wv),
                                          aFixups := opdefMergeFixup (aFixups st3) loc sFixup\<rparr>))))
             else error E st1 (''OPDEF '' @ [CHR 0x27] @ name @ [CHR 0x27]
                                 @ '' error: '' @ sOperands))"

section \<open>The literal pool\<close>

text \<open>
  The first \<open>forEach\<close> over a literal's words builds the dense prefix \<open>aWords\<close> and
  counts the words in \<open>nWords\<close>.
\<close>

definition literalDense :: "Lit \<Rightarrow> int list" where
  "literalDense lit =
     foldl (\<lambda>acc (i, w). if i = int (length acc) then acc @ [w] else acc) []
       (js_forEach (lit_aWords lit))"

definition literalCount :: "Lit \<Rightarrow> nat" where
  "literalCount lit = length (js_forEach (lit_aWords lit))"

text \<open>
  The inner \<open>for\<close> loop: it stops at the first \<open>n\<close> with
  \<open>aWords[n] !== this.aWords[nLocation + n] || lit.aFixups[n] != this.aFixups[nLocation]\<close>,
  and the block matches when it runs to \<open>nWords\<close>.
\<close>

definition literalMatchesAt :: "macro10 \<Rightarrow> Lit \<Rightarrow> int list \<Rightarrow> nat \<Rightarrow> int \<Rightarrow> bool" where
  "literalMatchesAt st lit ws nWords loc =
     list_all
       (\<lambda>n. \<not> ((if n < length ws then Some (ws ! n) else None) \<noteq> js_get (aWords st) (loc + int n)
               \<or> js_get (lit_aFixups lit) (int n) \<noteq> js_get (aFixups st) loc))
       [0..<nWords]"

function literalSearch :: "macro10 \<Rightarrow> Lit \<Rightarrow> int list \<Rightarrow> nat \<Rightarrow> int \<Rightarrow> int option" where
  "literalSearch st lit ws nWords loc =
     (if loc + int nWords \<le> nLocation st
      then (if literalMatchesAt st lit ws nWords loc then Some loc
            else literalSearch st lit ws nWords (loc + 1))
      else None)"
  by pat_completeness auto
termination
  by (relation "measure (\<lambda>(st, lit, ws, nWords, loc). nat (nLocation st - int nWords - loc + 1))")
    auto

declare literalSearch.simps [simp del]

text \<open>One pass of the loop over \<open>aLiterals\<close>; \<open>nLocationLiterals\<close> is where the pool starts.\<close>

definition processLiteral :: "env \<Rightarrow> int \<Rightarrow> macro10 \<Rightarrow> Lit \<Rightarrow> macro10 result" where
  "processLiteral E nLocationLiterals st lit =
     (let ws = literalDense lit;
          nWords = literalCount lit;
          found = (if nWords = length ws then literalSearch st lit ws nWords nLocationLiterals
                   else None)
      in case found of
           Some loc \<Rightarrow> addSymbol E st (lit_name lit) (Num loc) SYMTYPE_LABEL
         | None \<Rightarrow>
             (case addSymbol E st (lit_name lit) (Num (nLocation st)) SYMTYPE_LABEL of
                Inl e \<Rightarrow> Inl e
              | Inr st1 \<Rightarrow>
                  Inr (foldl (\<lambda>s (i, w). genWord E s w (js_get (lit_aFixups lit) i)) st1
                         (js_forEach (lit_aWords lit)))))"

fun processLiterals :: "env \<Rightarrow> int \<Rightarrow> macro10 \<Rightarrow> Lit list \<Rightarrow> macro10 result" where
  "processLiterals E nLocationLiterals st [] = Inr st"
| "processLiterals E nLocationLiterals st (lit # lits) =
     (case processLiteral E nLocationLiterals st lit of
        Inl e \<Rightarrow> Inl e
      | Inr st1 \<Rightarrow> processLiterals E nLocationLiterals st1 lits)"

section \<open>The driver\<close>

text \<open>
  The loop over the source lines. \<open>asLines\<close> holds a line at every even index and the
  line ending that followed it at every odd one; only the loader assigns it, so the loop
  runs over the lines it started with. \<open>parseLine\<close> is a parameter; its result is the
  value it returns.
\<close>

function parseLines ::
  "(macro10 \<Rightarrow> string \<Rightarrow> (bool \<times> macro10) result) \<Rightarrow> string list \<Rightarrow> nat \<Rightarrow> macro10
     \<Rightarrow> macro10 result" where
  "parseLines parseLine lines i st =
     (if i < length lines
      then (let st1 = st\<lparr>nLine := nLine st + 1\<rparr>
            in case parseLine st1 (lines ! i @ [CHR 0x0D, CHR 0x0A]) of
                 Inl e \<Rightarrow> Inl e
               | Inr (ok, st2) \<Rightarrow>
                   if \<not> ok then Inr st2
                   else if addrStart st2 \<noteq> None then Inr st2
                   else parseLines parseLine lines (i + 2) st2)
      else Inr st)"
  by pat_completeness auto
termination
  by (relation "measure (\<lambda>(parseLine, lines, i, st). length lines - i)") auto

declare parseLines.simps [simp del]

text \<open>
  The two checks after the loop: an open macro definition and an open scope. Reading
  \<open>nLine\<close> of a macro that the table does not hold throws a TypeError, whose message is
  the engine's.
\<close>

definition checkOpen :: "env \<Rightarrow> macro10 \<Rightarrow> macro10 result" where
  "checkOpen E st =
     (if nMacroDef st \<noteq> 0
      then (case (case sMacroDef st of None \<Rightarrow> None | Some nm \<Rightarrow> tblMacros st nm) of
              None \<Rightarrow> Inl (js_TypeError E ''nLine'', st)
            | Some m \<Rightarrow> error E st (''open block from line '' @ js_string_of_nat (mac_nLine m)))
      else if stackScopes st \<noteq> []
      then error E st (''open scope from line '' @ js_string_of_nat (scope_nLine (hd (stackScopes st))))
      else Inr st)"

text \<open>The loop over the reserved variables.\<close>

fun processVariables ::
  "env \<Rightarrow> (macro10 \<Rightarrow> string \<Rightarrow> macro10 result) \<Rightarrow> macro10 \<Rightarrow> string list \<Rightarrow> macro10 result" where
  "processVariables E parseText st [] = Inr st"
| "processVariables E parseText st (name # names) =
     (case tblMacros st name of
        None \<Rightarrow> error E st (''missing definition for variable: '' @ name)
      | Some macro \<Rightarrow>
          (case parseText st (mac_sText macro) of
             Inl e \<Rightarrow> Inl e
           | Inr st1 \<Rightarrow> processVariables E parseText st1 names))"

text \<open>
  The loop over the fixups. Adding to a hole of \<open>aWords\<close> gives NaN, which
  \<open>truncate\<close> reads as 0 without a warning.
\<close>

fun processFixups :: "env \<Rightarrow> macro10 \<Rightarrow> (int \<times> string) list \<Rightarrow> macro10 result" where
  "processFixups E st [] = Inr st"
| "processFixups E st ((loc, sValue) # rest) =
     (case parseExpression E st sValue False (Some loc) of
        Inl e \<Rightarrow> Inl e
      | Inr (None, st1) \<Rightarrow> error E st1 (''unable to parse expression: '' @ sValue)
      | Inr (Some v, st1) \<Rightarrow>
          (let (w, st2) = (case js_get (aWords st1) loc of
                             None \<Rightarrow> (dbg_truncate 0 36 True, st1)
                           | Some x \<Rightarrow> truncate E st1 (v + x) loc)
           in processFixups E (st2\<lparr>aWords := js_set (aWords st2) loc w\<rparr>) rest))"

text \<open>The body of the \<open>try\<close> block of \<open>parseResources\<close>.\<close>

definition mainPass ::
  "env \<Rightarrow> (macro10 \<Rightarrow> string \<Rightarrow> (bool \<times> macro10) result) \<Rightarrow> (macro10 \<Rightarrow> string \<Rightarrow> macro10 result)
     \<Rightarrow> macro10 \<Rightarrow> macro10 result" where
  "mainPass E parseLine parseText st =
     (case parseLines parseLine (asLines st) 0 st of
        Inl e \<Rightarrow> Inl e
      | Inr st1 \<Rightarrow>
          (case checkOpen E st1 of
             Inl e \<Rightarrow> Inl e
           | Inr st2 \<Rightarrow>
               (case processLiterals E (nLocation st2) st2 (aLiterals st2) of
                  Inl e \<Rightarrow> Inl e
                | Inr st3 \<Rightarrow>
                    (case processVariables E parseText st3 (aVariables st3) of
                       Inl e \<Rightarrow> Inl e
                     | Inr st4 \<Rightarrow> processFixups E st4 (js_forEach (aFixups st4))))))"

text \<open>
  \<open>parseResources()\<close>: the result is the returned error code and the state the
  assembler is left in.
\<close>

definition parseResources ::
  "env \<Rightarrow> (macro10 \<Rightarrow> string \<Rightarrow> (bool \<times> macro10) result) \<Rightarrow> (macro10 \<Rightarrow> string \<Rightarrow> macro10 result)
     \<Rightarrow> macro10 \<Rightarrow> int \<times> macro10" where
  "parseResources E parseLine parseText st =
     (if CHR ''p'' \<in> set (sOptions st) then (0, println st (concat (asLines st)))
      else
        let (a, d) = dbg_resetVariables (host st);
            st1 = (case mainPass E parseLine parseText (st\<lparr>host := d\<rparr>) of
                     Inl (message, st') \<Rightarrow> (println st' message)\<lparr>nError := - 1\<rparr>
                   | Inr st' \<Rightarrow> st');
            st2 = st1\<lparr>host := dbg_restoreVariables (host st1) a\<rparr>
        in (nError st2, st2))"


section \<open>IRP and IRPC blocks\<close>

text \<open>
  The classes \<open>[A-Z$%.]\<close> and \<open>[0-9A-Z$%.]\<close> of the regular expressions, which
  carry the flag \<open>i\<close>: a letter of either case counts.
\<close>

definition is_symStart :: "char \<Rightarrow> bool" where
  "is_symStart c =
     ((65 \<le> (of_char c :: nat) \<and> (of_char c :: nat) \<le> 90)
      \<or> (97 \<le> (of_char c :: nat) \<and> (of_char c :: nat) \<le> 122)
      \<or> c = CHR ''$'' \<or> c = CHR ''%'' \<or> c = CHR ''.'')"

definition is_symChar :: "char \<Rightarrow> bool" where
  "is_symChar c = (is_digit c \<or> is_symStart c)"

text \<open>
  \<open>sOperands.match(/([A-Z$%.][0-9A-Z$%.]*)\s*,\s*(<|)([\s\S]*)/i)\<close>: the leftmost
  place where a symbol starts whose longest run of symbol characters is followed, after
  white space, by a comma. A shorter run is followed by a symbol character, which is
  neither white space nor a comma, so only the longest run can match. The result is the
  three groups: the symbol, the opening bracket if there is one after the comma and its
  white space, and all the text behind.
\<close>

fun matchIRP :: "string \<Rightarrow> (string \<times> string \<times> string) option" where
  "matchIRP [] = None"
| "matchIRP (c # cs) =
     (if is_symStart c
      then (case dropWhile is_space (dropWhile is_symChar cs) of
              [] \<Rightarrow> matchIRP cs
            | d # r \<Rightarrow>
                if d = CHR '','' then
                  (case dropWhile is_space r of
                     [] \<Rightarrow> Some (c # takeWhile is_symChar cs, [], [])
                   | b # u \<Rightarrow>
                       if b = CHR ''<'' then Some (c # takeWhile is_symChar cs, ''<'', u)
                       else Some (c # takeWhile is_symChar cs, [], b # u))
                else matchIRP cs)
      else matchIRP cs)"

definition PSEUDO_OP_IRP :: string where
  "PSEUDO_OP_IRP = ''IRP''"

definition PSEUDO_OP_IRPC :: string where
  "PSEUDO_OP_IRPC = ''IRPC''"

text \<open>
  \<open>defMacro(sOperator, sOperands)\<close> for the operators IRP and IRPC, up to the common
  tail; \<open>sOper\<close> is its \<open>sOperator\<close>. \<open>this.macroCall\<close>, the macro being
  expanded, is an argument, and so is the
  method \<open>getValues\<close>, which is handed \<open>None\<close> where the source hands it
  \<open>undefined\<close>. The index \<open>i\<close> is that of the first parameter of the macro equal
  to the symbol. \<open>aValues[i]\<close> beyond the values that the call gave is \<open>undefined\<close>:
  IRP hands that to \<open>getValues\<close>; IRPC reads its property \<open>split\<close>, and the engine
  throws a TypeError. \<open>split\<close> with the empty separator gives the list of the characters.
\<close>

definition defMacro_IRP ::
  "env \<Rightarrow> (macro10 \<Rightarrow> string option \<Rightarrow> (string list \<times> macro10) result) \<Rightarrow> macro10
     \<Rightarrow> Mac option \<Rightarrow> string \<Rightarrow> string \<Rightarrow> (MacroHead \<times> macro10) result" where
  "defMacro_IRP E getValues st macroCall sOper sOperands =
     (case macroCall of
        None \<Rightarrow> error E st (sOper @ '' outside of macro'')
      | Some call \<Rightarrow>
          (case matchIRP sOperands of
             None \<Rightarrow> error E st (''unrecognized '' @ sOper @ '': '' @ sOperands)
           | Some (parm, opn, rest) \<Rightarrow>
               (let i = length (takeWhile (\<lambda>p. p \<noteq> parm) (mac_aParms call))
                in if i = length (mac_aParms call)
                   then error E st (''invalid '' @ sOper @ '' parameter: '' @ parm)
                   else
                     (case (if sOper = PSEUDO_OP_IRPC
                            then (if i < length (mac_aValues call)
                                  then Inr (map (\<lambda>c. [c]) (mac_aValues call ! i), st)
                                  else Inl (js_TypeError E ''split'', st))
                            else getValues st
                                   (if i < length (mac_aValues call)
                                    then Some (mac_aValues call ! i) else None)) of
                        Inl e \<Rightarrow> Inl e
                      | Inr (aValues, st1) \<Rightarrow>
                          Inr (\<lparr>mh_name = CHR ''?'' # sOper,
                                mh_nOperand = int (length aValues),
                                mh_aParms = [parm], mh_aValues = aValues,
                                mh_open = opn, mh_text = rest\<rparr>, st1)))))"
section \<open>The specification's descriptions, for comparison with the code\<close>

text \<open>
  Emitting a word: it is stored at the location counter, which then advances. Nothing
  else of the state changes.
\<close>

definition emit_word :: "macro10 \<Rightarrow> int \<Rightarrow> macro10" where
  "emit_word st w =
     st\<lparr>aWords := js_set (aWords st) (nLocation st) w, nLocation := nLocation st + 1\<rparr>"

definition emit_words :: "macro10 \<Rightarrow> int list \<Rightarrow> macro10" where
  "emit_words st ws = foldl emit_word st ws"

text \<open>
  Packing as the specification words it: the codes of one word are placed MSB-first, the
  first in the slot that starts at bit \<open>hi\<close>, each following one \<open>bits\<close> lower; the
  slots of a partial word that no code fills stay zero. The codes are cut into groups of
  \<open>n\<close>, one group per word.
\<close>

fun spec_pack :: "nat \<Rightarrow> nat \<Rightarrow> nat \<Rightarrow> int list \<Rightarrow> int" where
  "spec_pack bits hi k [] = 0"
| "spec_pack bits hi k (c # cs) = c * 2 ^ (hi - bits * k) + spec_pack bits hi (k + 1) cs"

function spec_chunks :: "nat \<Rightarrow> 'a list \<Rightarrow> 'a list list" where
  "spec_chunks n xs = (if xs = [] \<or> n = 0 then [] else take n xs # spec_chunks n (drop n xs))"
  by pat_completeness auto
termination
  by (relation "measure (\<lambda>(n, xs). length xs)") auto

declare spec_chunks.simps [simp del]

text \<open>The 7-bit code of a character, and the 6-bit code of SIXBIT: lower case folded to
  upper case, then 0o40 added, then masked to 6 bits.\<close>

definition spec_code7 :: "char \<Rightarrow> int" where
  "spec_code7 c = int (of_char c) mod 128"

definition spec_sixbit_code :: "int \<Rightarrow> int" where
  "spec_sixbit_code c = ((if 97 \<le> c \<and> c \<le> 122 then c - 32 else c) + 32) mod 64"

text \<open>ASCII and ASCIZ: five 7-bit codes per word, with the lowest bit left over as
  padding; ASCIZ packs the string extended by one zero character. SIXBIT: six 6-bit codes
  per word.\<close>

definition spec_ascii_words :: "bool \<Rightarrow> string \<Rightarrow> int list" where
  "spec_ascii_words asciz s =
     map (spec_pack 7 29 0) (spec_chunks 5 (map spec_code7 s @ (if asciz then [0] else [])))"

definition spec_sixbit_words :: "string \<Rightarrow> int list" where
  "spec_sixbit_words s =
     map (spec_pack 6 30 0) (spec_chunks 6 (map (\<lambda>c. spec_sixbit_code (spec_code7 c)) s))"

text \<open>What the loop of \<open>genASCII\<close> works with, named for the proofs: the code it packs
  for index \<open>i\<close>, the width, top slot and number of codes per word for the operator at
  hand, and the statement that follows the loop.\<close>

definition code_at :: "macro10 \<Rightarrow> nat \<Rightarrow> int" where
  "code_at st i =
     (if sOperator st = Some PSEUDO_OP_SIXBIT then spec_sixbit_code (charCode7 (sASCII st) i)
      else charCode7 (sASCII st) i)"

definition asc_bits :: "macro10 \<Rightarrow> nat" where
  "asc_bits st = (if sOperator st = Some PSEUDO_OP_SIXBIT then 6 else 7)"

definition asc_hi :: "macro10 \<Rightarrow> nat" where
  "asc_hi st = (if sOperator st = Some PSEUDO_OP_SIXBIT then 30 else 29)"

definition asc_per :: "macro10 \<Rightarrow> nat" where
  "asc_per st = (if sOperator st = Some PSEUDO_OP_SIXBIT then 6 else 5)"

definition genASCII_finish :: "env \<Rightarrow> (nat \<times> int \<times> int \<times> int) \<times> macro10 \<Rightarrow> macro10" where
  "genASCII_finish E x =
     (case x of ((n, w, shift, bits), st1) \<Rightarrow> if n \<noteq> 0 then genWord E st1 w None else st1)"

text \<open>
  The frame that \<open>pushScope(name)\<close> saves, and the state after the matching pop as the
  specification has it: the outer word buffer, fixup list, location counter and
  scope-location are those of the frame, the frame is off the stack, and a named scope
  has been appended to the literal pool.
\<close>

definition scope_frame :: "macro10 \<Rightarrow> string option \<Rightarrow> Scope" where
  "scope_frame st name =
     \<lparr>scope_name = name, scope_aWords = aWords st, scope_aFixups = aFixups st,
      scope_nLocation = nLocation st, scope_nLocationScope = nLocationScope st,
      scope_nLine = nLine st\<rparr>"

definition scope_restored :: "macro10 \<Rightarrow> Scope \<Rightarrow> Scope list \<Rightarrow> macro10" where
  "scope_restored st f fs =
     (case scope_name f of
        None \<Rightarrow> st
      | Some nm \<Rightarrow>
          if nm = [] then st
          else st\<lparr>aLiterals := aLiterals st @
                     [\<lparr>lit_name = nm, lit_aWords = aWords st, lit_aFixups = aFixups st\<rparr>]\<rparr>)
       \<lparr>stackScopes := fs, aWords := scope_aWords f, aFixups := scope_aFixups f,
        nLocation := scope_nLocation f, nLocationScope := scope_nLocationScope f\<rparr>"

text \<open>
  Two notions for the proofs about expressions: a state that differs from another in the
  host's part only, and the state a result of \<open>parseExpression\<close> carries.
\<close>

definition host_only :: "macro10 \<Rightarrow> macro10 \<Rightarrow> bool" where
  "host_only st st1 = (st1 = st\<lparr>host := host st1\<rparr>)"

definition result_state :: "(int option \<times> macro10) result \<Rightarrow> macro10" where
  "result_state x = (case x of Inl (m, s) \<Rightarrow> s | Inr (r, s) \<Rightarrow> s)"

text \<open>
  The period rewrite as the code's comment has it: every period that is not followed by a
  decimal digit becomes the rendering of the location, and nothing else changes. And the
  texts in which no period directly follows another.
\<close>

fun spec_periods :: "string \<Rightarrow> string \<Rightarrow> string" where
  "spec_periods loc [] = []"
| "spec_periods loc (c # cs) =
     (if c = CHR ''.'' \<and> (cs = [] \<or> \<not> is_digit (hd cs)) then loc else [c]) @ spec_periods loc cs"

fun periods_apart :: "string \<Rightarrow> bool" where
  "periods_apart [] = True"
| "periods_apart [c] = True"
| "periods_apart (c # d # cs) = (\<not> (c = CHR ''.'' \<and> d = CHR ''.'') \<and> periods_apart (d # cs))"

section \<open>A host for the worked examples\<close>

text \<open>
  The examples need a host debugger. This one reads what the examples use: an octal
  number, a character between double quotes (its code), and two of these around a double
  comma as the two halves of a word. It leaves \<open>sUndefined\<close> empty. The field masks
  are those of the PDP-10 instruction word: accumulator (4 bits from bit 23), indirect
  (bit 22), index (4 bits from bit 18) and address (the low 18 bits).
\<close>

definition octal_value :: "string \<Rightarrow> int option" where
  "octal_value s =
     (if s \<noteq> [] \<and> list_all (\<lambda>c. 48 \<le> (of_char c :: nat) \<and> (of_char c :: nat) \<le> 55) s
      then Some (foldl (\<lambda>v c. 8 * v + (int (of_char c) - 48)) 0 s) else None)"

definition demo_atom :: "string \<Rightarrow> int option" where
  "demo_atom s =
     (case octal_value s of
        Some v \<Rightarrow> Some v
      | None \<Rightarrow> (case s of
                   [q, c, q'] \<Rightarrow> if q = CHR 0x22 \<and> q' = CHR 0x22 then Some (int (of_char c)) else None
                 | _ \<Rightarrow> None))"

definition demo_value :: "string \<Rightarrow> int option" where
  "demo_value s =
     (case demo_atom s of
        Some v \<Rightarrow> Some v
      | None \<Rightarrow>
          (case List.map_filter
                  (\<lambda>i. if take 2 (drop i s) = '',,''
                       then (case (demo_atom (take i s), demo_atom (drop (i + 2) s)) of
                               (Some x, Some y) \<Rightarrow> Some (x mod 2 ^ 18 * 2 ^ 18 + y mod 2 ^ 18)
                             | _ \<Rightarrow> None)
                       else None)
                  [0..<length s] of
             [] \<Rightarrow> None
           | v # _ \<Rightarrow> Some v))"

definition demo_env :: env where
  "demo_env =
     \<lparr>Str_toDec = js_string_of_nat, Str_toOct = (\<lambda>v. js_string_of_nat (nat v)),
      dbg_toStrBase = (\<lambda>v. js_string_of_nat (nat v)),
      dbg_parseExpression = (\<lambda>d s f. (demo_value s, d\<lparr>sUndefined := None\<rparr>)),
      A_FIELD = 0x7800000, X_FIELD = 0x3C0000, Y_FIELD = 0x3FFFF,
      I_FIELD = 0x400000, js_TypeError = (\<lambda>p. ''TypeError reading '' @ p)\<rparr>"

definition demo_dbg :: dbg where
  "demo_dbg = \<lparr>vars = Map.empty, sUndefined = None, printed = []\<rparr>"


text \<open>
  Two-word literals for the examples of the literal pool, both words 0, with the given
  fixups; and what matters of the pool's outcome: the addresses given to the first two
  literal names, and the location counter.
\<close>

definition two_word_literal :: "string \<Rightarrow> string option list \<Rightarrow> Lit" where
  "two_word_literal nm fx =
     \<lparr>lit_name = nm, lit_aWords = js_of_list [0, 0],
      lit_aFixups = \<lparr>elems = (\<lambda>i. if 0 \<le> i \<and> nat i < length fx then fx ! nat i else None),
                      alength = length fx\<rparr>\<rparr>"

definition literal_addresses :: "macro10 result \<Rightarrow> int option \<times> int option \<times> int" where
  "literal_addresses r =
     (case r of
        Inl e \<Rightarrow> (None, None, - 1)
      | Inr st \<Rightarrow> (map_option sym_value (tblSymbols st ''?00001''),
                  map_option sym_value (tblSymbols st ''?00002''), nLocation st))"

text \<open>
  For the example of an OPDEF invocation, from the comment above \<open>parseMacro\<close>:
  \<open>OPDEF CAL [MOVE 1,@SYM(2)]\<close> used as \<open>CAL 1,BOL(2)\<close>. The stand-in for
  \<open>parseText\<close> emits the word of the body (opcode 0o200, accumulator 1, indirect,
  index 2; the address waits in a fixup) and the word of the operands (accumulator 1,
  index 2), and the outcome is the word and the fixup at location 0 and the location
  counter.
\<close>

definition opdef_demo_parseText :: "macro10 \<Rightarrow> string \<Rightarrow> macro10 result" where
  "opdef_demo_parseText st s =
     (if s = ''MOVE 1,@SYM(2)'' then Inr (genWord demo_env st 0x400C80000 (Some ''SYM''))
      else if s = ''1,BOL(2)'' then Inr (genWord demo_env st 0x880000 (Some ''BOL''))
      else error demo_env st (''failed to parse line: '' @ s))"

definition opdef_outcome :: "(bool \<times> macro10) result \<Rightarrow> int option \<times> string option \<times> int" where
  "opdef_outcome r =
     (case r of
        Inl e \<Rightarrow> (None, None, - 1)
      | Inr (ok, st) \<Rightarrow> (js_get (aWords st) 0, js_get (aFixups st) 0, nLocation st))"


text \<open>
  A line parser that throws an exception with the message \<open>m\<close> at the line \<open>line\<close>
  and accepts every other line as it is.
\<close>

definition throwsAt :: "string \<Rightarrow> string \<Rightarrow> macro10 \<Rightarrow> string \<Rightarrow> (bool \<times> macro10) result" where
  "throwsAt line m s l = (if l = line @ [CHR 0x0D, CHR 0x0A] then Inl (m, s) else Inr (True, s))"
section \<open>Word emission and packing\<close>

lemma genWord_plain: "0 \<le> w \<Longrightarrow> w < 2 ^ 36 \<Longrightarrow> genWord E st w None = emit_word st w"
  by (simp add: genWord_def truncate_def dbg_truncate_def INT_LIMIT_def WORD_LIMIT_def emit_word_def Let_def)

lemma spec_pack_snoc:
  "spec_pack bits hi k (xs @ [c]) = spec_pack bits hi k xs + c * 2 ^ (hi - bits * (k + length xs))"
  by (induction xs arbitrary: k) (simp_all add: algebra_simps)

lemma spec_pack_nonneg: "\<forall>c\<in>set xs. 0 \<le> c \<Longrightarrow> 0 \<le> spec_pack bits hi k xs"
  by (induction xs arbitrary: k) simp_all

lemma spec_pack_bound:
  "\<forall>c\<in>set xs. 0 \<le> c \<and> c < 2 ^ bits \<Longrightarrow> bits * (k + length xs) \<le> hi + bits \<Longrightarrow>
   spec_pack bits hi k xs < 2 ^ (hi + bits - bits * k)"
proof (induction xs arbitrary: k)
  case Nil
  then show ?case by simp
next
  case (Cons c cs)
  have le: "bits * (k + 1) \<le> hi + bits" using Cons.prems(2) by (simp add: algebra_simps)
  have kt: "bits * k \<le> hi" using le by simp
  have ih: "spec_pack bits hi (k + 1) cs < 2 ^ (hi + bits - bits * (k + 1))"
    using Cons.IH [of "k + 1"] Cons.prems by (simp add: algebra_simps)
  have e1: "hi + bits - bits * (k + 1) = hi - bits * k" by simp
  have e2: "hi + bits - bits * k = (hi - bits * k) + bits" using kt by simp
  have c: "c \<le> 2 ^ bits - 1" "0 \<le> c" using Cons.prems(1) by auto
  have "c * 2 ^ (hi - bits * k) \<le> (2 ^ bits - 1) * 2 ^ (hi - bits * k)"
    using c by (intro mult_right_mono) auto
  also have "\<dots> = 2 ^ (hi + bits - bits * k) - (2 ^ (hi - bits * k) :: int)"
    unfolding e2 power_add by (simp only: algebra_simps)
  finally have "c * 2 ^ (hi - bits * k) + spec_pack bits hi (k + 1) cs < 2 ^ (hi + bits - bits * k)"
    using ih e1 by simp
  then show ?case by simp
qed


lemma emit_word_fields [simp]:
  "sOperator (emit_word st w) = sOperator st" "sASCII (emit_word st w) = sASCII st"
  by (simp_all add: emit_word_def)

lemma asc_emit_word [simp]:
  "asc_bits (emit_word st w) = asc_bits st" "asc_hi (emit_word st w) = asc_hi st"
  "asc_per (emit_word st w) = asc_per st" "code_at (emit_word st w) = code_at st"
  by (simp_all add: asc_bits_def asc_hi_def asc_per_def code_at_def fun_eq_iff)

lemma code_at_range: "0 \<le> code_at st i \<and> code_at st i < 2 ^ asc_bits st"
  by (simp add: code_at_def asc_bits_def spec_sixbit_code_def charCode7_def)

lemma asc_arith:
  "asc_bits st * asc_per st \<le> asc_hi st + asc_bits st"
  "n < asc_per st \<Longrightarrow> asc_bits st * n \<le> asc_hi st"
  "n < asc_per st \<Longrightarrow> (int (asc_hi st) - int (asc_bits st) * int n - int (asc_bits st) < 0) = (n + 1 = asc_per st)"
  "0 < asc_per st"
  by (auto simp add: asc_bits_def asc_hi_def asc_per_def)

lemma spec_chunks_Nil [simp]: "spec_chunks n [] = []"
  by (subst spec_chunks.simps) simp

lemma spec_chunks_full:
  "length xs = n \<Longrightarrow> 0 < n \<Longrightarrow> spec_chunks n (xs @ ys) = xs # spec_chunks n ys"
  by (subst spec_chunks.simps) auto

lemma spec_chunks_short:
  assumes "length xs \<le> n" "xs \<noteq> []"
  shows "spec_chunks n xs = [xs]"
proof -
  have "0 < n" using assms by (cases xs) auto
  then show ?thesis using assms
    by (subst spec_chunks.simps, subst spec_chunks.simps) auto
qed

lemma emit_words_Cons: "emit_words st (w # ws) = emit_words (emit_word st w) ws"
  by (simp add: emit_words_def)

lemma genASCII_body_eq:
  assumes len: "length xs = n" and n: "n < asc_per st"
    and xs: "\<forall>c\<in>set xs. 0 \<le> c \<and> c < 2 ^ asc_bits st"
    and inv: "0 < n \<longrightarrow> bits = int (asc_bits st) \<and> shift = int (asc_hi st) - int (asc_bits st) * int n
                \<and> w = spec_pack (asc_bits st) (asc_hi st) 0 xs"
  shows "genASCII_body E i ((n, w, shift, bits), st) =
     (let w2 = spec_pack (asc_bits st) (asc_hi st) 0 (xs @ [code_at st i]);
          shift2 = int (asc_hi st) - int (asc_bits st) * int (n + 1)
      in if n + 1 = asc_per st then ((0, w2, shift2, int (asc_bits st)), emit_word st w2)
         else ((n + 1, w2, shift2, int (asc_bits st)), st))"
proof -
  let ?B = "asc_bits st" and ?H = "asc_hi st"
  let ?c = "code_at st i"
  let ?w2 = "spec_pack ?B ?H 0 (xs @ [?c])"
  have sh: "nat (int ?H - int ?B * int n) = ?H - ?B * n"
    using asc_arith(2) [OF n] by (simp add: nat_diff_distrib' flip: of_nat_mult)
  have w2: "?w2 = spec_pack ?B ?H 0 xs + ?c * 2 ^ (?H - ?B * n)"
    by (simp add: spec_pack_snoc len)
  have rng: "\<forall>c\<in>set (xs @ [?c]). 0 \<le> c \<and> c < 2 ^ ?B"
    using xs code_at_range [of st i] by auto
  have "?w2 < 2 ^ (?H + ?B - ?B * 0)" if "n + 1 = asc_per st"
    by (rule spec_pack_bound [OF rng]) (use that len asc_arith(1) [of st] in simp)
  then have hi: "n + 1 = asc_per st \<Longrightarrow> ?w2 < 2 ^ 36"
    by (simp add: asc_bits_def asc_hi_def split: if_splits)
  have lo: "0 \<le> ?w2" by (rule spec_pack_nonneg) (use rng in auto)
  have gw: "n + 1 = asc_per st \<Longrightarrow> genWord E st ?w2 None = emit_word st ?w2"
    using genWord_plain [OF lo] hi by simp
  show ?thesis
  proof (cases "n = 0")
    case True
    then have "xs = []" using len by simp
    with True show ?thesis using gw asc_arith(3) [OF n]
      by (auto simp add: genASCII_body_def code_at_def asc_bits_def asc_hi_def asc_per_def
          spec_sixbit_code_def Let_def PSEUDO_OP_SIXBIT_def)
  next
    case False
    then have i: "bits = int ?B" "shift = int ?H - int ?B * int n" "w = spec_pack ?B ?H 0 xs"
      using inv by auto
    have s2: "(int ?H - int ?B * int n - int ?B < 0) = (n + 1 = asc_per st)"
      by (rule asc_arith(3) [OF n])
    show ?thesis
      using False i w2 s2 sh gw
      by (cases "sOperator st = Some PSEUDO_OP_SIXBIT")
        (simp_all add: genASCII_body_def code_at_def asc_bits_def asc_hi_def asc_per_def
          spec_sixbit_code_def Let_def)
  qed
qed


lemma genASCII_for_emit:
  assumes "length xs = n" and "n < asc_per st"
    and "\<forall>c\<in>set xs. 0 \<le> c \<and> c < 2 ^ asc_bits st"
    and "0 < n \<longrightarrow> bits = int (asc_bits st) \<and> shift = int (asc_hi st) - int (asc_bits st) * int n
                \<and> w = spec_pack (asc_bits st) (asc_hi st) 0 xs"
  shows "genASCII_finish E (genASCII_for E cch i ((n, w, shift, bits), st)) =
     emit_words st (map (spec_pack (asc_bits st) (asc_hi st) 0)
       (spec_chunks (asc_per st) (xs @ map (code_at st) [i..<cch])))"
  using assms
proof (induction "cch - i" arbitrary: i n w shift bits st xs)
  case 0
  then have fin: "\<not> i < cch" by simp
  show ?case
  proof (cases "n = 0")
    case True
    then show ?thesis using fin 0
      by (subst genASCII_for.simps) (simp add: genASCII_finish_def emit_words_def)
  next
    case False
    let ?w = "spec_pack (asc_bits st) (asc_hi st) 0 xs"
    have w: "w = ?w" using False 0 by simp
    have "?w < 2 ^ (asc_hi st + asc_bits st - asc_bits st * 0)"
      by (rule spec_pack_bound) (use 0 asc_arith(2) [of "length xs" st] in \<open>auto simp add: algebra_simps\<close>)
    then have hi: "?w < 2 ^ 36" by (simp add: asc_bits_def asc_hi_def split: if_splits)
    have lo: "0 \<le> ?w" by (rule spec_pack_nonneg) (use 0 in auto)
    have ne: "xs \<noteq> []" using False 0 by auto
    have ch: "spec_chunks (asc_per st) xs = [xs]"
      by (rule spec_chunks_short) (use 0 ne in auto)
    show ?thesis using fin False
      by (subst genASCII_for.simps)
        (simp add: genASCII_finish_def w genWord_plain [OF lo hi] ch emit_words_def)
  qed
next
  case (Suc k)
  then have lt: "i < cch" and k: "k = cch - (i + 1)" by auto
  let ?B = "asc_bits st" and ?H = "asc_hi st"
  let ?c = "code_at st i"
  let ?w2 = "spec_pack ?B ?H 0 (xs @ [?c])"
  have upt: "[i..<cch] = i # [i + 1..<cch]" using lt by (simp add: upt_conv_Cons)
  have rng: "\<forall>c\<in>set (xs @ [?c]). 0 \<le> c \<and> c < 2 ^ ?B"
    using Suc.prems(3) code_at_range [of st i] by auto
  have body: "genASCII_body E i ((n, w, shift, bits), st) =
     (if n + 1 = asc_per st
      then ((0, ?w2, int ?H - int ?B * int (n + 1), int ?B), emit_word st ?w2)
      else ((n + 1, ?w2, int ?H - int ?B * int (n + 1), int ?B), st))"
    using genASCII_body_eq [OF Suc.prems, of E i] by (simp add: Let_def)
  show ?case
  proof (cases "n + 1 = asc_per st")
    case True
    have len: "length (xs @ [?c]) = asc_per st" using True Suc.prems(1) by simp
    have ih: "genASCII_finish E (genASCII_for E cch (i + 1) ((0, ?w2, int ?H - int ?B * int (n + 1), int ?B), emit_word st ?w2))
      = emit_words (emit_word st ?w2) (map (spec_pack ?B ?H 0)
          (spec_chunks (asc_per st) ([] @ map (code_at st) [i + 1..<cch])))"
      using Suc.hyps(1) [OF k, of "[]" 0 "emit_word st ?w2"] asc_arith(4) [of st] by simp
    have ch: "spec_chunks (asc_per st) (xs @ map (code_at st) [i..<cch])
        = (xs @ [?c]) # spec_chunks (asc_per st) (map (code_at st) [i + 1..<cch])"
      using spec_chunks_full [OF len asc_arith(4), of "map (code_at st) [i + 1..<cch]"]
      by (simp add: upt)
    show ?thesis
      by (subst genASCII_for.simps) (use lt True ih in \<open>simp add: body ch emit_words_Cons\<close>)
  next
    case False
    have n1: "n + 1 < asc_per st" using False Suc.prems(2) by simp
    have ih: "genASCII_finish E (genASCII_for E cch (i + 1) ((n + 1, ?w2, int ?H - int ?B * int (n + 1), int ?B), st))
      = emit_words st (map (spec_pack ?B ?H 0)
          (spec_chunks (asc_per st) ((xs @ [?c]) @ map (code_at st) [i + 1..<cch])))"
      by (rule Suc.hyps(1) [OF k]) (use Suc.prems(1) n1 rng in auto)
    show ?thesis
      by (subst genASCII_for.simps) (use lt False ih in \<open>simp add: body upt\<close>)
  qed
qed

lemma genASCII_emit:
  "genASCII E st = emit_words st (map (spec_pack (asc_bits st) (asc_hi st) 0)
     (spec_chunks (asc_per st)
        (map (code_at st)
           [0..<length (sASCII st) + (if sOperator st = Some PSEUDO_OP_ASCIZ then 1 else 0)])))"
proof -
  let ?cch = "length (sASCII st) + (if sOperator st = Some PSEUDO_OP_ASCIZ then 1 else 0)"
  have "genASCII E st = genASCII_finish E (genASCII_for E ?cch 0 ((0, 0, 0, 0), st))"
    by (simp add: genASCII_def genASCII_finish_def Let_def split: prod.splits)
  also have "\<dots> = emit_words st (map (spec_pack (asc_bits st) (asc_hi st) 0)
     (spec_chunks (asc_per st) ([] @ map (code_at st) [0..<?cch])))"
    by (rule genASCII_for_emit) (use asc_arith(4) [of st] in auto)
  finally show ?thesis by simp
qed

section \<open>Expressions leave the assembler's own state alone\<close>

lemma host_only_refl [simp]: "host_only st st"
  by (simp add: host_only_def)

lemma host_only_upd [simp]: "host_only st (st\<lparr>host := h\<rparr>)"
  by (simp add: host_only_def)

lemma host_only_trans: "host_only st st1 \<Longrightarrow> host_only st1 st2 \<Longrightarrow> host_only st st2"
  by (cases st, cases st1, cases st2) (simp add: host_only_def)

lemma parseExpression_host_only:
  "host_only st (result_state (parseExpression E st s f n))"
proof (induction E st s f n rule: parseExpression.induct)
  case (1 E st sOperand fPass1 nLoc)
  show ?case
  proof (cases "matchDoubleComma sOperand")
    case None
    then show ?thesis
      by (subst parseExpression.simps)
        (simp add: result_state_def error_def Let_def split: prod.splits option.splits)
  next
    case (Some p)
    obtain l r where p: "p = (l, r)" by (cases p)
    let ?L = "if l \<noteq> [] then parseExpression E st l fPass1 nLoc else Inr (Some 0, st)"
    have L: "host_only st (result_state ?L)"
      using 1(1) [OF Some p [symmetric]] by (simp add: result_state_def)
    show ?thesis
    proof (cases ?L)
      case (Inl e)
      then show ?thesis using L Some p
        by (subst parseExpression.simps) (simp add: result_state_def split: prod.splits)
    next
      case (Inr q)
      obtain wl st1 where q: "q = (wl, st1)" by (cases q)
      have h1: "host_only st st1" using L Inr q by (simp add: result_state_def)
      show ?thesis
      proof (cases wl)
        case None
        then show ?thesis using Inr q h1 Some p
          by (subst parseExpression.simps) (simp add: result_state_def)
      next
        case (Some wLeft)
        let ?R = "if r \<noteq> [] then parseExpression E st1 r fPass1 nLoc else Inr (Some 0, st1)"
        have R: "host_only st1 (result_state ?R)"
          using 1(2) [OF \<open>matchDoubleComma sOperand = Some p\<close> p [symmetric] Inr q [symmetric] Some]
          by (simp add: result_state_def)
        have "host_only st (result_state ?R)" by (rule host_only_trans [OF h1 R])
        then show ?thesis using Inr q Some \<open>matchDoubleComma sOperand = Some p\<close> p
          by (subst parseExpression.simps)
            (auto simp add: result_state_def split: sum.splits prod.splits option.splits)
      qed
    qed
  qed
qed


lemma host_only_fields:
  "host_only st st1 \<Longrightarrow> tblSymbols st1 = tblSymbols st \<and> nLine st1 = nLine st"
  by (cases st, cases st1) (simp add: host_only_def)

lemma parseExpression_Inr_host_only:
  "parseExpression E st s f n = Inr (r, st1) \<Longrightarrow> host_only st st1"
  using parseExpression_host_only [of st E s f n] by (simp add: result_state_def)

section \<open>The double comma\<close>

lemma matchDoubleComma_none: "CHR '','' \<notin> set s \<Longrightarrow> matchDoubleComma s = None"
proof -
  assume "CHR '','' \<notin> set s"
  then have h: "dropWhile (\<lambda>c. c \<noteq> CHR '','') s = []" by (induction s) auto
  show ?thesis unfolding matchDoubleComma_def h by simp
qed

lemma dropWhile_no_comma:
  "CHR '','' \<notin> set a \<Longrightarrow> dropWhile (\<lambda>c. c \<noteq> CHR '','') (a @ CHR '','' # r) = CHR '','' # r"
  by (induction a) auto

lemma takeWhile_no_comma:
  "CHR '','' \<notin> set a \<Longrightarrow> takeWhile (\<lambda>c. c \<noteq> CHR '','') (a @ CHR '','' # r) = a"
  by (induction a) auto

lemma matchDoubleComma_split:
  "CHR '','' \<notin> set a \<Longrightarrow> CHR '','' \<notin> set b \<Longrightarrow> matchDoubleComma (a @ CHR '','' # CHR '','' # b) = Some (a, b)"
  by (simp add: matchDoubleComma_def dropWhile_no_comma takeWhile_no_comma)

lemma replaceFirstComma_split:
  "CHR '','' \<notin> set a \<Longrightarrow> replaceFirstComma (a @ CHR '','' # b) = a @ CHR '','' # CHR '','' # b"
  by (simp add: replaceFirstComma_def dropWhile_no_comma takeWhile_no_comma)

lemma parseExpression_halves:
  assumes "CHR '','' \<notin> set a" and "CHR '','' \<notin> set b"
  shows "parseExpression E st (a @ '',,'' @ b) f n =
     (case (if a \<noteq> [] then parseExpression E st a f n else Inr (Some 0, st)) of
        Inl e \<Rightarrow> Inl e
      | Inr (None, st1) \<Rightarrow> Inr (None, st1)
      | Inr (Some wLeft, st1) \<Rightarrow>
          (case (if b \<noteq> [] then parseExpression E st1 b f n else Inr (Some 0, st1)) of
             Inl e \<Rightarrow> Inl e
           | Inr (None, st2) \<Rightarrow> Inr (None, st2)
           | Inr (Some wRight, st2) \<Rightarrow>
               Inr (Some (dbg_truncate wLeft 18 True * 2 ^ 18 + dbg_truncate wRight 18 True), st2)))"
  by (subst parseExpression.simps) (simp add: matchDoubleComma_split [OF assms])

lemma demo_env_parse:
  "dbg_parseExpression demo_env d s f = (demo_value s, d\<lparr>sUndefined := None\<rparr>)"
  by (simp add: demo_env_def)

lemma demo_init_host: "(macro10_init addr opts demo_dbg)\<lparr>host := demo_dbg\<lparr>sUndefined := None\<rparr>\<rparr>
    = macro10_init addr opts demo_dbg"
  by (simp add: macro10_init_def demo_dbg_def)

lemma parseExpression_plain:
  assumes "matchDoubleComma s = None"
    and "demo_value (hostText demo_env (macro10_init addr opts demo_dbg) s n) = Some v"
  shows "parseExpression demo_env (macro10_init addr opts demo_dbg) s f n
    = Inr (Some v, macro10_init addr opts demo_dbg)"
proof -
  have h: "host (macro10_init addr opts demo_dbg) = demo_dbg"
    by (simp add: macro10_init_def)
  show ?thesis
    by (subst parseExpression.simps) (simp add: assms demo_env_parse h demo_init_host)
qed

lemma matchDoubleComma_Some:
  assumes "matchDoubleComma s = Some (l, r)"
  shows "s = l @ CHR '','' # CHR '','' # r \<and> CHR '','' \<notin> set l \<and> CHR '','' \<notin> set r"
proof -
  let ?P = "\<lambda>c. c \<noteq> CHR '',''"
  from assms obtain c1 where d: "dropWhile ?P s = c1 # CHR '','' # r"
    and l: "l = takeWhile ?P s" and r: "CHR '','' \<notin> set r"
    by (auto simp add: matchDoubleComma_def split: list.splits if_splits)
  have "\<not> ?P (hd (dropWhile ?P s))"
    by (rule hd_dropWhile) (simp add: d)
  then have c1: "c1 = CHR '',''" by (simp add: d)
  have "s = takeWhile ?P s @ dropWhile ?P s" by simp
  then have s: "s = l @ CHR '','' # CHR '','' # r" using d l c1 by simp
  have "CHR '','' \<notin> set l" using l by (auto dest: set_takeWhileD)
  then show ?thesis using s r by simp
qed

lemma double_comma_form_right:
  "matchDoubleComma ('',,'' @ R) \<noteq> None \<longleftrightarrow> CHR '','' \<notin> set R"
proof
  assume "matchDoubleComma ('',,'' @ R) \<noteq> None"
  then obtain l r where m: "matchDoubleComma ('',,'' @ R) = Some (l, r)" by auto
  from matchDoubleComma_Some [OF m] have s: "'',,'' @ R = l @ CHR '','' # CHR '','' # r"
    and l: "CHR '','' \<notin> set l" and r: "CHR '','' \<notin> set r" by simp_all
  have "l = []" using s l by (cases l) auto
  then show "CHR '','' \<notin> set R" using s r by simp
next
  assume "CHR '','' \<notin> set R"
  then show "matchDoubleComma ('',,'' @ R) \<noteq> None"
    using matchDoubleComma_split [of "[]" R] by simp
qed

lemma double_comma_form_left:
  "matchDoubleComma (L @ '',,'') \<noteq> None \<longleftrightarrow> CHR '','' \<notin> set L"
proof
  assume "matchDoubleComma (L @ '',,'') \<noteq> None"
  then obtain l r where m: "matchDoubleComma (L @ '',,'') = Some (l, r)" by auto
  from matchDoubleComma_Some [OF m] have s: "L @ '',,'' = l @ CHR '','' # CHR '','' # r"
    and l: "CHR '','' \<notin> set l" and r: "CHR '','' \<notin> set r" by simp_all
  have "r = []"
  proof (rule ccontr)
    assume "r \<noteq> []"
    then have "last (l @ CHR '','' # CHR '','' # r) = last r" by simp
    moreover have "last (L @ '',,'') = CHR '',''" by simp
    ultimately have "last r = CHR '',''" using s by simp
    then show False using r \<open>r \<noteq> []\<close> last_in_set by fastforce
  qed
  then have "L @ '',,'' = l @ '',,''" using s by simp
  then have "L = l" by simp
  then show "CHR '','' \<notin> set L" using l by simp
next
  assume "CHR '','' \<notin> set L"
  then show "matchDoubleComma (L @ '',,'') \<noteq> None"
    using matchDoubleComma_split [of L "[]"] by simp
qed

section \<open>How far the code and the specification agree\<close>

text \<open>
  Where no two periods are adjacent the period rewrite replaces every period that is not
  followed by a digit. Within 31 bits the two bitwise operators are the exact ones, so
  the OPDEF merge is the specification's formula for a base word whose sum with the
  operand fields stays below 2^31. The literal search compares every word of the literal
  with the word at its position in the block, but every fixup of the literal with the one
  fixup at the start of the block; for a literal of one word that is the comparison by
  position.
\<close>

lemma periods_apart_tl: "periods_apart (c # cs) \<Longrightarrow> periods_apart cs"
  by (cases cs) simp_all

lemma replacePeriod_apart:
  "periods_apart s \<Longrightarrow> replacePeriod loc s = spec_periods loc s"
proof (induction loc s rule: replacePeriod.induct)
  case (1 loc)
  then show ?case by simp
next
  case (2 loc c)
  then show ?case by simp
next
  case (3 loc c d cs)
  have a: "periods_apart (d # cs)" "periods_apart cs"
    using 3(3) periods_apart_tl [of d cs] by simp_all
  show ?case
  proof (cases "c = CHR ''.'' \<and> \<not> is_digit d")
    case True
    then have "d \<noteq> CHR ''.''" using 3(3) by simp
    then show ?thesis using True 3(1) a by simp
  next
    case False
    then show ?thesis using 3(2) a by auto
  qed
qed

lemma js_or_small:
  assumes "0 \<le> a" "a < 2 ^ 31" "0 \<le> b" "b < 2 ^ 31"
  shows "js_or a b = a OR b"
proof -
  have "(word_of_int a :: 32 word) OR word_of_int b = word_of_int (a OR b)"
    by (simp add: of_int_or_eq)
  moreover have "0 \<le> a OR b" using assms by simp
  then have lo: "- (2 ^ 31) \<le> a OR b" by (rule order_trans [rotated]) simp
  moreover have hi: "a OR b < 2 ^ 31" using assms OR_upper [of a 31 b] by simp
  moreover have "signed_take_bit 31 (a OR b) = a OR b"
    by (rule signed_take_bit_int_eq_self [OF lo hi])
  ultimately show ?thesis
    by (simp add: js_or_def sint_sbintrunc')
qed

lemma js_and_small:
  assumes "0 \<le> b" "b < 2 ^ 31"
  shows "js_and a b = a AND b"
proof -
  have "(word_of_int a :: 32 word) AND word_of_int b = word_of_int (a AND b)"
    by (simp add: of_int_and_eq)
  moreover have "0 \<le> a AND b" using assms by simp
  then have lo: "- (2 ^ 31) \<le> a AND b" by (rule order_trans [rotated]) simp
  moreover have hi: "a AND b < 2 ^ 31" using assms AND_upper2'' [of b "2 ^ 31" a] by simp
  moreover have "signed_take_bit 31 (a AND b) = a AND b"
    by (rule signed_take_bit_int_eq_self [OF lo hi])
  ultimately show ?thesis
    by (simp add: js_and_def sint_sbintrunc')
qed

lemma opdefMergeWord_fits:
  assumes m: "0 \<le> A_FIELD E" "A_FIELD E < 2 ^ 31" "0 \<le> X_FIELD E" "X_FIELD E < 2 ^ 31"
      "0 \<le> Y_FIELD E" "Y_FIELD E < 2 ^ 31" "0 \<le> I_FIELD E" "I_FIELD E < 2 ^ 31"
    and c: "0 \<le> c" "c + (w AND (A_FIELD E OR X_FIELD E OR Y_FIELD E)) < 2 ^ 31"
  shows "opdefMergeWord E (Some c) w
     = (c + (w AND (A_FIELD E OR X_FIELD E OR Y_FIELD E))) OR (w AND I_FIELD E)"
proof -
  have ax: "js_or (A_FIELD E) (X_FIELD E) = A_FIELD E OR X_FIELD E"
    using m by (intro js_or_small) simp_all
  have axb: "0 \<le> A_FIELD E OR X_FIELD E" "A_FIELD E OR X_FIELD E < 2 ^ 31"
    using m OR_upper [of "A_FIELD E" 31 "X_FIELD E"] by simp_all
  have axy: "js_or (A_FIELD E OR X_FIELD E) (Y_FIELD E) = A_FIELD E OR X_FIELD E OR Y_FIELD E"
    using m axb by (simp add: js_or_small or.assoc)
  have xyb: "0 \<le> X_FIELD E OR Y_FIELD E" "X_FIELD E OR Y_FIELD E < 2 ^ 31"
    using m OR_upper [of "X_FIELD E" 31 "Y_FIELD E"] by simp_all
  have axyb: "0 \<le> A_FIELD E OR X_FIELD E OR Y_FIELD E" "A_FIELD E OR X_FIELD E OR Y_FIELD E < 2 ^ 31"
    using m xyb OR_upper [of "A_FIELD E" 31 "X_FIELD E OR Y_FIELD E"] by simp_all
  have w1: "js_and w (A_FIELD E OR X_FIELD E OR Y_FIELD E) = w AND (A_FIELD E OR X_FIELD E OR Y_FIELD E)"
    using axyb by (intro js_and_small)
  have w2: "js_and w (I_FIELD E) = w AND I_FIELD E"
    using m by (intro js_and_small)
  have w1b: "0 \<le> w AND (A_FIELD E OR X_FIELD E OR Y_FIELD E)" using axyb by simp
  have w2b: "0 \<le> w AND I_FIELD E" "w AND I_FIELD E < 2 ^ 31"
    using m AND_upper2'' [of "I_FIELD E" "2 ^ 31" w] by simp_all
  show ?thesis
    using c w1b w2b by (simp add: opdefMergeWord_def ax axy w1 w2 js_or_small)
qed

lemma literalMatchesAt_one_word:
  "literalMatchesAt st lit [w] 1 loc
     = (js_get (aWords st) loc = Some w \<and> js_get (lit_aFixups lit) 0 = js_get (aFixups st) loc)"
  by (auto simp add: literalMatchesAt_def)

lemma literalMatchesAt_iff:
  "literalMatchesAt st lit ws (length ws) loc
     = (\<forall>n < length ws. js_get (aWords st) (loc + int n) = Some (ws ! n)
          \<and> js_get (lit_aFixups lit) (int n) = js_get (aFixups st) loc)"
  by (auto simp add: literalMatchesAt_def list_all_iff)


lemma charCode7_codes:
  "map (charCode7 s) [0..<length s] = map spec_code7 s"
  by (rule nth_equalityI) (simp_all add: charCode7_def spec_code7_def)

lemma charCode7_end: "charCode7 s (length s) = 0"
  by (simp add: charCode7_def)

lemma sixbit_codes:
  "map (\<lambda>i. spec_sixbit_code (charCode7 s i)) [0..<length s]
     = map (\<lambda>c. spec_sixbit_code (spec_code7 c)) s"
  by (rule nth_equalityI) (simp_all add: charCode7_def spec_code7_def)

text \<open>
  C7. For ASCII and ASCIZ (any operator but SIXBIT) \<open>genASCII\<close> emits, from the location
  counter on, exactly the words of the specification's packing: five 7-bit character
  codes per 36-bit word, MSB-first, with the one bit left over (the lowest) as padding,
  and the last word zero-padded; for
  ASCIZ the string is first extended by one zero character. Nothing else of the state
  changes.
\<close>

theorem genASCII_ascii_packing:
  assumes "sOperator st \<noteq> Some PSEUDO_OP_SIXBIT"
  shows "genASCII E st
    = emit_words st (spec_ascii_words (sOperator st = Some PSEUDO_OP_ASCIZ) (sASCII st))"
proof -
  have c: "code_at st = charCode7 (sASCII st)"
    using assms by (simp add: code_at_def fun_eq_iff)
  have p: "asc_bits st = 7" "asc_hi st = 29" "asc_per st = 5"
    using assms by (simp_all add: asc_bits_def asc_hi_def asc_per_def)
  show ?thesis
    by (cases "sOperator st = Some PSEUDO_OP_ASCIZ")
      (simp_all add: genASCII_emit c p spec_ascii_words_def charCode7_codes charCode7_end)
qed

text \<open>
  The witness is the specification's example: the operands \<open>/AB/\<close> of an ASCIZ line
  emit exactly one word, with the codes of A, B and three zero characters in its five
  slots, and leave the line ending over.
\<close>

theorem genASCII_ascii_packing_witness:
  "\<forall>E d. sOperator ((macro10_init None [] d)\<lparr>sOperator := Some ''ASCIZ'', sASCII := ''AB''\<rparr>)
            \<noteq> Some PSEUDO_OP_SIXBIT
     \<and> defASCII E ((macro10_init None [] d)\<lparr>sOperator := Some ''ASCIZ''\<rparr>)
           (''/AB/'' @ [CHR 0x0D, CHR 0x0A])
       = ([CHR 0x0D, CHR 0x0A],
          (macro10_init None [] d)
            \<lparr>sOperator := Some ''ASCIZ'', sASCII := ''AB'',
             aWords := js_set js_empty 0 (65 * 2 ^ 29 + 66 * 2 ^ 22 + 0 * 2 ^ 15 + 0 * 2 ^ 8 + 0 * 2 ^ 1),
             nLocation := 1\<rparr>)"
proof (intro allI)
  fix E d
  let ?ini = "(macro10_init None [] d)\<lparr>sOperator := Some ''ASCIZ''\<rparr>"
  let ?st = "(macro10_init None [] d)\<lparr>sOperator := Some ''ASCIZ'', sASCII := ''AB''\<rparr>"
  have op: "sOperator ?st \<noteq> Some PSEUDO_OP_SIXBIT"
    by (simp add: PSEUDO_OP_SIXBIT_def)
  have ch: "spec_chunks 5 [65, 66, 0 :: int] = [[65, 66, 0]]"
    by (rule spec_chunks_short) simp_all
  have ws: "spec_ascii_words True ''AB'' = [35173433344]"
    by (simp add: spec_ascii_words_def spec_code7_def ch)
  have g: "genASCII E ?st
      = (macro10_init None [] d)
           \<lparr>sOperator := Some ''ASCIZ'', sASCII := ''AB'',
            aWords := js_set js_empty 0 (65 * 2 ^ 29 + 66 * 2 ^ 22 + 0 * 2 ^ 15 + 0 * 2 ^ 8 + 0 * 2 ^ 1),
            nLocation := 1\<rparr>"
    using genASCII_ascii_packing [OF op, of E]
    by (simp add: ws PSEUDO_OP_ASCIZ_def emit_words_def emit_word_def macro10_init_def)
  have d: "defASCII E ?ini (''/AB/'' @ [CHR 0x0D, CHR 0x0A]) = ([CHR 0x0D, CHR 0x0A], genASCII E ?st)"
    by (simp add: defASCII_def indexOf_char_def macro10_init_def Let_def)
  show "sOperator ?st \<noteq> Some PSEUDO_OP_SIXBIT
     \<and> defASCII E ?ini (''/AB/'' @ [CHR 0x0D, CHR 0x0A])
       = ([CHR 0x0D, CHR 0x0A],
          (macro10_init None [] d)
            \<lparr>sOperator := Some ''ASCIZ'', sASCII := ''AB'',
             aWords := js_set js_empty 0 (65 * 2 ^ 29 + 66 * 2 ^ 22 + 0 * 2 ^ 15 + 0 * 2 ^ 8 + 0 * 2 ^ 1),
             nLocation := 1\<rparr>)"
    using op d g by simp
qed

text \<open>
  C8. For SIXBIT \<open>genASCII\<close> emits exactly the words of the specification's packing: the
  7-bit code of every character is folded from lower to upper case, then 0o40 is added
  and the sum masked to 6 bits, and six such codes go into each 36-bit word, MSB-first.
  Nothing else of the state changes.
\<close>

theorem genASCII_sixbit_packing:
  assumes "sOperator st = Some PSEUDO_OP_SIXBIT"
  shows "genASCII E st = emit_words st (spec_sixbit_words (sASCII st))"
proof -
  have c: "code_at st = (\<lambda>i. spec_sixbit_code (charCode7 (sASCII st) i))"
    using assms by (simp add: code_at_def fun_eq_iff)
  have p: "asc_bits st = 6" "asc_hi st = 30" "asc_per st = 6"
    using assms by (simp_all add: asc_bits_def asc_hi_def asc_per_def)
  have z: "sOperator st \<noteq> Some PSEUDO_OP_ASCIZ"
    using assms by (simp add: PSEUDO_OP_SIXBIT_def PSEUDO_OP_ASCIZ_def)
  show ?thesis
    by (simp add: genASCII_emit c p z spec_sixbit_words_def sixbit_codes)
qed

text \<open>
  The witness is the specification's example: the operands \<open>/ab/\<close> of a SIXBIT line
  put \<open>('A' + 0o40) & 0o77\<close> and \<open>('B' + 0o40) & 0o77\<close> into the top two 6-bit slots of
  the one word they emit.
\<close>

theorem genASCII_sixbit_packing_witness:
  "\<forall>E d. sOperator ((macro10_init None [] d)\<lparr>sOperator := Some ''SIXBIT'', sASCII := ''ab''\<rparr>)
            = Some PSEUDO_OP_SIXBIT
     \<and> defASCII E ((macro10_init None [] d)\<lparr>sOperator := Some ''SIXBIT''\<rparr>)
           (''/ab/'' @ [CHR 0x0D, CHR 0x0A])
       = ([CHR 0x0D, CHR 0x0A],
          (macro10_init None [] d)
            \<lparr>sOperator := Some ''SIXBIT'', sASCII := ''ab'',
             aWords := js_set js_empty 0 (((65 + 32) mod 64) * 2 ^ 30 + ((66 + 32) mod 64) * 2 ^ 24),
             nLocation := 1\<rparr>)"
proof (intro allI)
  fix E d
  let ?ini = "(macro10_init None [] d)\<lparr>sOperator := Some ''SIXBIT''\<rparr>"
  let ?st = "(macro10_init None [] d)\<lparr>sOperator := Some ''SIXBIT'', sASCII := ''ab''\<rparr>"
  have op: "sOperator ?st = Some PSEUDO_OP_SIXBIT"
    by (simp add: PSEUDO_OP_SIXBIT_def)
  have ch: "spec_chunks 6 [33, 34 :: int] = [[33, 34]]"
    by (rule spec_chunks_short) simp_all
  have ws: "spec_sixbit_words ''ab'' = [36003905536]"
    by (simp add: spec_sixbit_words_def spec_code7_def spec_sixbit_code_def ch)
  have g: "genASCII E ?st
      = (macro10_init None [] d)
           \<lparr>sOperator := Some ''SIXBIT'', sASCII := ''ab'',
            aWords := js_set js_empty 0 (((65 + 32) mod 64) * 2 ^ 30 + ((66 + 32) mod 64) * 2 ^ 24),
            nLocation := 1\<rparr>"
    using genASCII_sixbit_packing [OF op, of E]
    by (simp add: ws emit_words_def emit_word_def macro10_init_def)
  have d: "defASCII E ?ini (''/ab/'' @ [CHR 0x0D, CHR 0x0A]) = ([CHR 0x0D, CHR 0x0A], genASCII E ?st)"
    by (simp add: defASCII_def indexOf_char_def macro10_init_def Let_def)
  show "sOperator ?st = Some PSEUDO_OP_SIXBIT
     \<and> defASCII E ?ini (''/ab/'' @ [CHR 0x0D, CHR 0x0A])
       = ([CHR 0x0D, CHR 0x0A],
          (macro10_init None [] d)
            \<lparr>sOperator := Some ''SIXBIT'', sASCII := ''ab'',
             aWords := js_set js_empty 0 (((65 + 32) mod 64) * 2 ^ 30 + ((66 + 32) mod 64) * 2 ^ 24),
             nLocation := 1\<rparr>)"
    using op d g by simp
qed

section \<open>Scopes\<close>

lemma pushScope_stack:
  "stackScopes (pushScope st name) = stackScopes st @ [scope_frame st name]"
  by (simp add: pushScope_def scope_frame_def Let_def)

lemma pushScope_fresh:
  "nLocation (pushScope st name) = 0 \<and> aWords (pushScope st name) = js_empty
     \<and> aFixups (pushScope st name) = js_empty"
  by (simp add: pushScope_def Let_def)

lemma popScope_lifo:
  assumes "stackScopes st' = fs @ [f]" and "fs = [] \<longrightarrow> scope_nLocationScope f = - 1"
  shows "popScope E st' = Inr (scope_restored st' f fs)"
  using assms
  by (cases "scope_name f")
    (auto simp add: popScope_def scope_restored_def Let_def error_def)

lemma popScope_empty:
  "stackScopes st = [] \<Longrightarrow> popScope E st = error E st ''scope nesting error''"
  by (simp add: popScope_def)

lemma checkOpen_scope:
  "stackScopes st \<noteq> [] \<Longrightarrow> nMacroDef st = 0 \<Longrightarrow>
   checkOpen E st = error E st (''open scope from line '' @ js_string_of_nat (scope_nLine (hd (stackScopes st))))"
  by (simp add: checkOpen_def)

lemma checkOpen_raises:
  "stackScopes st \<noteq> [] \<Longrightarrow> isl (checkOpen E st)"
  by (simp add: checkOpen_def error_def split: option.splits)

text \<open>
  C9. Inside a scope the location counter starts at 0. A pop that finds the stack as the
  push left it (whatever was pushed in between has been popped again) returns, and the
  word buffer, fixup list, location counter and scope-location are exactly those at push
  time, and the stack is the one before the push; this needs the outermost scope-location
  to be the sentinel -1, as the constructor sets it. A pop always takes the frame pushed
  last and leaves the frames below it. A pop on an empty stack raises the scope nesting
  error, and the check at the end of the input raises an error while the stack is not
  empty.
\<close>

theorem scope_stack_discipline:
  "nLocation (pushScope st name) = 0
   \<and> (stackScopes st' = stackScopes (pushScope st name)
        \<longrightarrow> (stackScopes st = [] \<longrightarrow> nLocationScope st = - 1)
        \<longrightarrow> popScope E st' = Inr (scope_restored st' (scope_frame st name) (stackScopes st))
            \<and> aWords (scope_restored st' (scope_frame st name) (stackScopes st)) = aWords st
            \<and> aFixups (scope_restored st' (scope_frame st name) (stackScopes st)) = aFixups st
            \<and> nLocation (scope_restored st' (scope_frame st name) (stackScopes st)) = nLocation st
            \<and> nLocationScope (scope_restored st' (scope_frame st name) (stackScopes st)) = nLocationScope st
            \<and> stackScopes (scope_restored st' (scope_frame st name) (stackScopes st)) = stackScopes st)
   \<and> (stackScopes st' = fs @ [f] \<longrightarrow> (fs = [] \<longrightarrow> scope_nLocationScope f = - 1)
        \<longrightarrow> popScope E st' = Inr (scope_restored st' f fs))
   \<and> (stackScopes st = [] \<longrightarrow> popScope E st = error E st ''scope nesting error'')
   \<and> (stackScopes st \<noteq> [] \<longrightarrow> isl (checkOpen E st))"
proof -
  have a: "popScope E st' = Inr (scope_restored st' (scope_frame st name) (stackScopes st))"
    if "stackScopes st' = stackScopes (pushScope st name)" "stackScopes st = [] \<longrightarrow> nLocationScope st = - 1"
    by (rule popScope_lifo) (use that in \<open>simp_all add: pushScope_stack scope_frame_def\<close>)
  have b: "aWords (scope_restored st' (scope_frame st name) (stackScopes st)) = aWords st
            \<and> aFixups (scope_restored st' (scope_frame st name) (stackScopes st)) = aFixups st
            \<and> nLocation (scope_restored st' (scope_frame st name) (stackScopes st)) = nLocation st
            \<and> nLocationScope (scope_restored st' (scope_frame st name) (stackScopes st)) = nLocationScope st
            \<and> stackScopes (scope_restored st' (scope_frame st name) (stackScopes st)) = stackScopes st"
    by (simp add: scope_restored_def scope_frame_def split: option.splits)
  show ?thesis
    using a b popScope_lifo [of st' fs f E] popScope_empty [of st E] checkOpen_raises [of st E]
      pushScope_fresh [of st name]
    by blast
qed

text \<open>
  The witness runs the constructor's state through a named literal scope that emits one
  word: the pop restores the outer state and files the literal.
\<close>

theorem scope_stack_discipline_witness:
  "\<forall>E d. (let st = macro10_init None [] d;
              st' = genWord E (pushScope st (Some ''?00001'')) 7 None
          in stackScopes st' = stackScopes (pushScope st (Some ''?00001''))
             \<and> stackScopes st = [] \<and> nLocationScope st = - 1
             \<and> stackScopes (pushScope st None) \<noteq> []
             \<and> popScope E st' = Inr (st\<lparr>aLiterals := [\<lparr>lit_name = ''?00001'', lit_aWords = js_set js_empty 0 7, lit_aFixups = js_empty\<rparr>]\<rparr>)
             \<and> popScope E st = error E st ''scope nesting error''
             \<and> isl (checkOpen E (pushScope st None)))"
proof (intro allI)
  fix E d
  let ?st = "macro10_init None [] d"
  let ?st' = "genWord E (pushScope ?st (Some ''?00001'')) 7 None"
  have h1: "stackScopes ?st' = stackScopes (pushScope ?st (Some ''?00001''))"
    by (simp add: genWord_plain emit_word_def)
  have h2: "stackScopes ?st = []" "nLocationScope ?st = - 1"
    by (simp_all add: macro10_init_def)
  have h3: "stackScopes (pushScope ?st None) \<noteq> []"
    by (simp add: pushScope_stack)
  have r: "scope_restored ?st' (scope_frame ?st (Some ''?00001'')) (stackScopes ?st)
      = ?st\<lparr>aLiterals := [\<lparr>lit_name = ''?00001'', lit_aWords = js_set js_empty 0 7, lit_aFixups = js_empty\<rparr>]\<rparr>"
    by (simp add: genWord_plain emit_word_def scope_restored_def scope_frame_def pushScope_def
        macro10_init_def Let_def)
  show "let st = ?st; st' = genWord E (pushScope st (Some ''?00001'')) 7 None
          in stackScopes st' = stackScopes (pushScope st (Some ''?00001''))
             \<and> stackScopes st = [] \<and> nLocationScope st = - 1
             \<and> stackScopes (pushScope st None) \<noteq> []
             \<and> popScope E st' = Inr (st\<lparr>aLiterals := [\<lparr>lit_name = ''?00001'', lit_aWords = js_set js_empty 0 7, lit_aFixups = js_empty\<rparr>]\<rparr>)
             \<and> popScope E st = error E st ''scope nesting error''
             \<and> isl (checkOpen E (pushScope st None))"
  proof -
    have p1: "popScope E ?st' = Inr (scope_restored ?st' (scope_frame ?st (Some ''?00001'')) (stackScopes ?st))"
      using scope_stack_discipline [of ?st "Some ''?00001''" ?st' E "[]" "scope_frame ?st (Some ''?00001'')"]
        h1 h2 by blast
    have p2: "popScope E ?st = error E ?st ''scope nesting error''"
      using scope_stack_discipline [of ?st "Some ''?00001''" ?st' E "[]" "scope_frame ?st (Some ''?00001'')"]
        h2 by blast
    have p3: "isl (checkOpen E (pushScope ?st None))"
      using scope_stack_discipline [of "pushScope ?st None" None ?st' E "[]" "scope_frame ?st None"]
        h3 by blast
    show ?thesis
      unfolding Let_def using h1 h2 h3 p1 [unfolded r] p2 p3 by (intro conjI)
  qed
qed

section \<open>Symbols\<close>

text \<open>
  C4. Defining a LABEL under a name that the symbol table already holds (names are
  upper-cased and cut to six characters) raises the error "label NAME redefined", whatever
  the value. Defining a symbol without the LABEL flag under a name the table holds
  overwrites the value, type and line of the existing record and raises nothing: for a
  numeric value always, for an expression text when the expression evaluates.
\<close>

theorem addSymbol_redefinition:
  "(nType AND SYMTYPE_LABEL \<noteq> 0 \<longrightarrow> tblSymbols st (take 6 (js_toUpperCase name)) \<noteq> None \<longrightarrow>
      addSymbol E st name val nType
        = Inl (error_message E st (''label '' @ take 6 (js_toUpperCase name) @ '' redefined''), st))
   \<and> (nType AND SYMTYPE_LABEL = 0 \<longrightarrow> tblSymbols st (take 6 (js_toUpperCase name)) = Some old \<longrightarrow>
      addSymbol E st name (Num v) nType
        = Inr (st\<lparr>tblSymbols := (tblSymbols st)(take 6 (js_toUpperCase name) \<mapsto>
                      old\<lparr>sym_value := v, sym_nType := nType, sym_nLine := nLine st\<rparr>),
                  host := dbg_setVariable (host st) (take 6 (js_toUpperCase name)) v\<rparr>))
   \<and> (nType AND SYMTYPE_LABEL = 0 \<longrightarrow> tblSymbols st (take 6 (js_toUpperCase name)) = Some old \<longrightarrow>
      parseExpression E st s False None = Inr (Some v, st1) \<longrightarrow>
      addSymbol E st name (Str s) nType
        = Inr (st1\<lparr>tblSymbols := (tblSymbols st)(take 6 (js_toUpperCase name) \<mapsto>
                      old\<lparr>sym_value := v, sym_nType := nType, sym_nLine := nLine st\<rparr>),
                   host := dbg_setVariable (host st1) (take 6 (js_toUpperCase name)) v\<rparr>))"
proof (intro conjI impI)
  assume "nType AND SYMTYPE_LABEL \<noteq> 0" "tblSymbols st (take 6 (js_toUpperCase name)) \<noteq> None"
  then show "addSymbol E st name val nType
        = Inl (error_message E st (''label '' @ take 6 (js_toUpperCase name) @ '' redefined''), st)"
    by (simp add: addSymbol_def error_def Let_def)
next
  assume "nType AND SYMTYPE_LABEL = 0" "tblSymbols st (take 6 (js_toUpperCase name)) = Some old"
  then show "addSymbol E st name (Num v) nType
        = Inr (st\<lparr>tblSymbols := (tblSymbols st)(take 6 (js_toUpperCase name) \<mapsto>
                      old\<lparr>sym_value := v, sym_nType := nType, sym_nLine := nLine st\<rparr>),
                  host := dbg_setVariable (host st) (take 6 (js_toUpperCase name)) v\<rparr>)"
    by (simp add: addSymbol_def Let_def)
next
  assume a: "nType AND SYMTYPE_LABEL = 0" "tblSymbols st (take 6 (js_toUpperCase name)) = Some old"
    and p: "parseExpression E st s False None = Inr (Some v, st1)"
  have f: "tblSymbols st1 = tblSymbols st" "nLine st1 = nLine st"
    using host_only_fields [OF parseExpression_Inr_host_only [OF p]] by simp_all
  show "addSymbol E st name (Str s) nType
        = Inr (st1\<lparr>tblSymbols := (tblSymbols st)(take 6 (js_toUpperCase name) \<mapsto>
                      old\<lparr>sym_value := v, sym_nType := nType, sym_nLine := nLine st\<rparr>),
                   host := dbg_setVariable (host st1) (take 6 (js_toUpperCase name)) v\<rparr>)"
    using a p f by (simp add: addSymbol_def Let_def)
qed

text \<open>
  The witness: after \<open>A: 0\<close> on line 1, a second label \<open>A\<close> on line 2 raises
  "error at line 2: label A redefined"; re-assigning the private symbol \<open>B\<close> overwrites
  its record.
\<close>

theorem addSymbol_redefinition_witness:
  "\<forall>E d.
     (let st1 = (macro10_init None [] d)\<lparr>nLine := 1\<rparr>;
          symA = \<lparr>sym_name = ''A'', sym_value = 0, sym_nType = SYMTYPE_LABEL, sym_nLine = 1\<rparr>;
          st2 = st1\<lparr>tblSymbols := [''A'' \<mapsto> symA], host := dbg_setVariable d ''A'' 0, nLine := 2\<rparr>;
          symB = \<lparr>sym_name = ''B'', sym_value = 3, sym_nType = SYMTYPE_PRIVATE, sym_nLine = 1\<rparr>;
          st3 = st1\<lparr>tblSymbols := [''B'' \<mapsto> symB], nLine := 2\<rparr>
      in addSymbol E st1 ''A'' (Num 0) SYMTYPE_LABEL = Inr (st2\<lparr>nLine := 1\<rparr>)
         \<and> SYMTYPE_LABEL AND SYMTYPE_LABEL \<noteq> 0 \<and> tblSymbols st2 (take 6 (js_toUpperCase ''a'')) \<noteq> None
         \<and> addSymbol E st2 ''a'' (Num 1) SYMTYPE_LABEL
             = Inl (''error at line '' @ Str_toDec E 2 @ '': label A redefined'', st2)
         \<and> 0 AND SYMTYPE_LABEL = 0 \<and> tblSymbols st3 (take 6 (js_toUpperCase ''B'')) = Some symB
         \<and> addSymbol E st3 ''B'' (Num 7) 0
             = Inr (st3\<lparr>tblSymbols := [''B'' \<mapsto> \<lparr>sym_name = ''B'', sym_value = 7, sym_nType = 0, sym_nLine = 2\<rparr>],
                        host := dbg_setVariable d ''B'' 7\<rparr>))"
proof (intro allI)
  fix E d
  let ?st1 = "(macro10_init None [] d)\<lparr>nLine := 1\<rparr>"
  let ?symA = "\<lparr>sym_name = ''A'', sym_value = 0, sym_nType = SYMTYPE_LABEL, sym_nLine = 1\<rparr>"
  let ?st2 = "?st1\<lparr>tblSymbols := [''A'' \<mapsto> ?symA], host := dbg_setVariable d ''A'' 0, nLine := 2\<rparr>"
  let ?symB = "\<lparr>sym_name = ''B'', sym_value = 3, sym_nType = SYMTYPE_PRIVATE, sym_nLine = 1\<rparr>"
  let ?st3 = "?st1\<lparr>tblSymbols := [''B'' \<mapsto> ?symB], nLine := 2\<rparr>"
  have up: "take 6 (js_toUpperCase ''a'') = ''A''" "take 6 (js_toUpperCase ''B'') = ''B''"
    "take 6 (js_toUpperCase ''A'') = ''A''"
    by code_simp+
  have l: "SYMTYPE_LABEL AND SYMTYPE_LABEL \<noteq> 0" "(0::nat) AND SYMTYPE_LABEL = 0"
    by (simp_all add: SYMTYPE_LABEL_def)
  have first: "addSymbol E ?st1 ''A'' (Num 0) SYMTYPE_LABEL = Inr (?st2\<lparr>nLine := 1\<rparr>)"
    using l by (simp add: addSymbol_def up Let_def macro10_init_def)
  have h2: "tblSymbols ?st2 (take 6 (js_toUpperCase ''a'')) \<noteq> None"
    by (simp add: up)
  have h3: "tblSymbols ?st3 (take 6 (js_toUpperCase ''B'')) = Some ?symB"
    by (simp add: up)
  have e: "addSymbol E ?st2 ''a'' (Num 1) SYMTYPE_LABEL
             = Inl (''error at line '' @ Str_toDec E 2 @ '': label A redefined'', ?st2)"
    using addSymbol_redefinition [where nType = SYMTYPE_LABEL and st = ?st2 and name = "''a''"
        and E = E and val = "Num 1"] l(1) h2
    by (simp add: up error_message_def)
  have o: "addSymbol E ?st3 ''B'' (Num 7) 0
             = Inr (?st3\<lparr>tblSymbols := [''B'' \<mapsto> \<lparr>sym_name = ''B'', sym_value = 7, sym_nType = 0, sym_nLine = 2\<rparr>],
                        host := dbg_setVariable d ''B'' 7\<rparr>)"
    using addSymbol_redefinition [where nType = 0 and st = ?st3 and name = "''B''"
        and old = ?symB and E = E and v = 7] l(2) h3
    by (simp add: up macro10_init_def)
  show "let st1 = ?st1; symA = ?symA;
          st2 = st1\<lparr>tblSymbols := [''A'' \<mapsto> symA], host := dbg_setVariable d ''A'' 0, nLine := 2\<rparr>;
          symB = ?symB;
          st3 = st1\<lparr>tblSymbols := [''B'' \<mapsto> symB], nLine := 2\<rparr>
      in addSymbol E st1 ''A'' (Num 0) SYMTYPE_LABEL = Inr (st2\<lparr>nLine := 1\<rparr>)
         \<and> SYMTYPE_LABEL AND SYMTYPE_LABEL \<noteq> 0 \<and> tblSymbols st2 (take 6 (js_toUpperCase ''a'')) \<noteq> None
         \<and> addSymbol E st2 ''a'' (Num 1) SYMTYPE_LABEL
             = Inl (''error at line '' @ Str_toDec E 2 @ '': label A redefined'', st2)
         \<and> 0 AND SYMTYPE_LABEL = 0 \<and> tblSymbols st3 (take 6 (js_toUpperCase ''B'')) = Some symB
         \<and> addSymbol E st3 ''B'' (Num 7) 0
             = Inr (st3\<lparr>tblSymbols := [''B'' \<mapsto> \<lparr>sym_name = ''B'', sym_value = 7, sym_nType = 0, sym_nLine = 2\<rparr>],
                        host := dbg_setVariable d ''B'' 7\<rparr>)"
    unfolding Let_def using first l h2 h3 e o by (intro conjI)
qed

section \<open>The driver\<close>

lemma error_message_line:
  "nLine st \<noteq> 0 \<Longrightarrow> error_message E st sError = ''error at line '' @ Str_toDec E (nLine st) @ '': '' @ sError"
  by (simp add: error_message_def)

lemma parseResources_vars:
  "vars (host (snd (parseResources E PL PT st))) = vars (host st)"
  by (simp add: parseResources_def println_def dbg_println_def dbg_resetVariables_def
      dbg_restoreVariables_def Let_def split: sum.splits prod.splits)

lemma parseResources_caught:
  "CHR ''p'' \<notin> set (sOptions st) \<Longrightarrow>
   mainPass E PL PT (st\<lparr>host := snd (dbg_resetVariables (host st))\<rparr>) = Inl (message, st') \<Longrightarrow>
   parseResources E PL PT st
     = (- 1, st'\<lparr>nError := - 1,
                 host := (host st')\<lparr>printed := printed (host st') @ [message], vars := vars (host st)\<rparr>\<rparr>)"
  by (simp add: parseResources_def println_def dbg_println_def dbg_resetVariables_def
      dbg_restoreVariables_def Let_def)

lemma parseLines_nil: "parseLines PL [] i st = Inr st"
  by (subst parseLines.simps) simp

lemma mainPass_no_lines:
  "mainPass E PL PT (macro10_init addr opts d) = Inr (macro10_init addr opts d)"
  by (simp add: mainPass_def macro10_init_def parseLines_nil checkOpen_def js_forEach_def
      js_empty_def List.map_filter_simps)


lemma matchIRP_example:
  "matchIRP (''A,<EXP 1>'' @ [CHR 0x0D, CHR 0x0A])
      = Some (''A'', ''<'', ''EXP 1>'' @ [CHR 0x0D, CHR 0x0A])"
  by code_simp

lemma defMacro_IRPC_missing_value:
  "defMacro_IRP E getValues st
      (Some \<lparr>mac_name = ''FOO'', mac_nOperand = nOp, mac_aParms = [''A''], mac_aDefaults = [],
             mac_aValues = [], mac_sText = ''IRPC A,<EXP 1>'', mac_nLine = 1\<rparr>)
      ''IRPC'' (''A,<EXP 1>'' @ [CHR 0x0D, CHR 0x0A])
     = Inl (js_TypeError E ''split'', st)"
  unfolding defMacro_IRP_def matchIRP_example by (simp add: PSEUDO_OP_IRPC_def)

lemma defMacro_IRP_missing_value:
  "defMacro_IRP E getValues st
      (Some \<lparr>mac_name = ''FOO'', mac_nOperand = nOp, mac_aParms = [''A''], mac_aDefaults = [],
             mac_aValues = [], mac_sText = ''IRP A,<EXP 1>'', mac_nLine = 1\<rparr>)
      ''IRP'' (''A,<EXP 1>'' @ [CHR 0x0D, CHR 0x0A])
     = (case getValues st None of
          Inl e \<Rightarrow> Inl e
        | Inr (aValues, st1) \<Rightarrow>
            Inr (\<lparr>mh_name = ''?IRP'', mh_nOperand = int (length aValues), mh_aParms = [''A''],
                  mh_aValues = aValues, mh_open = ''<'',
                  mh_text = ''EXP 1>'' @ [CHR 0x0D, CHR 0x0A]\<rparr>, st1))"
  unfolding defMacro_IRP_def matchIRP_example by (simp add: PSEUDO_OP_IRPC_def split: sum.splits)

lemma parseLines_throwsAt:
  "addrStart st = None \<Longrightarrow>
   parseLines (throwsAt ''FOO'' m) [''DEFINE FOO (A) <IRPC A,<EXP 1>>'', [CHR 0x0D, CHR 0x0A], ''FOO''] 0 st
      = Inl (m, st\<lparr>nLine := nLine st + 2\<rparr>)"
  apply (subst parseLines.simps)
  apply (simp add: throwsAt_def)
  apply (subst parseLines.simps)
  apply (simp add: throwsAt_def)
  done

lemma parseResources_prints_TypeError:
  "parseResources E (throwsAt ''FOO'' (js_TypeError E ''split'')) PT
        ((macro10_init addr [] d)
           \<lparr>asLines := [''DEFINE FOO (A) <IRPC A,<EXP 1>>'', [CHR 0x0D, CHR 0x0A], ''FOO'']\<rparr>)
     = (- 1,
        (macro10_init addr [] d)
           \<lparr>asLines := [''DEFINE FOO (A) <IRPC A,<EXP 1>>'', [CHR 0x0D, CHR 0x0A], ''FOO''],
            nLine := 2, nError := - 1,
            host := d\<lparr>printed := printed d @ [js_TypeError E ''split'']\<rparr>\<rparr>)"
proof -
  let ?ls = "[''DEFINE FOO (A) <IRPC A,<EXP 1>>'', [CHR 0x0D, CHR 0x0A], ''FOO'']"
  let ?st = "(macro10_init addr [] d)\<lparr>asLines := ?ls\<rparr>"
  let ?s1 = "?st\<lparr>host := snd (dbg_resetVariables (host ?st))\<rparr>"
  have a: "addrStart ?s1 = None" "asLines ?s1 = ?ls" "nLine ?s1 = 0"
    by (simp_all add: macro10_init_def)
  have l: "parseLines (throwsAt ''FOO'' (js_TypeError E ''split'')) (asLines ?s1) 0 ?s1
      = Inl (js_TypeError E ''split'', ?s1\<lparr>nLine := nLine ?s1 + 2\<rparr>)"
    unfolding a(2) by (rule parseLines_throwsAt [OF a(1)])
  have p: "mainPass E (throwsAt ''FOO'' (js_TypeError E ''split'')) PT ?s1
      = Inl (js_TypeError E ''split'', ?s1\<lparr>nLine := nLine ?s1 + 2\<rparr>)"
    unfolding mainPass_def l by simp
  have o: "CHR ''p'' \<notin> set (sOptions ?st)" by (simp add: macro10_init_def)
  show ?thesis
    using parseResources_caught [OF o p] by (simp add: macro10_init_def dbg_resetVariables_def)
qed

text \<open>
  C5. Not every fatal error carries a message made by \<open>error\<close>. In a macro with the
  parameter A whose body is \<open>IRPC A,<EXP 1>\<close>, called without an argument, \<open>defMacro\<close>
  reads \<open>split\<close> of the missing value, and what is thrown is the engine's TypeError,
  whatever the state and the line counter. IRP at the same place hands the missing
  value to \<open>getValues\<close> and goes on. The driver prints the message it catches as it
  is: for the two lines of that program, with a line parser that throws the TypeError
  at the call on line 2, the text printed is the TypeError's message, with no prefix
  that names line 2 before it, and the code returned is -1. On every run the host's
  variable table is after the driver what it was before it.
\<close>

theorem irpc_missing_argument_error:
  "defMacro_IRP E getValues st
      (Some \<lparr>mac_name = ''FOO'', mac_nOperand = nOp, mac_aParms = [''A''], mac_aDefaults = [],
             mac_aValues = [], mac_sText = ''IRPC A,<EXP 1>'', mac_nLine = 1\<rparr>)
      ''IRPC'' (''A,<EXP 1>'' @ [CHR 0x0D, CHR 0x0A])
     = Inl (js_TypeError E ''split'', st)
   \<and> defMacro_IRP E getValues st
      (Some \<lparr>mac_name = ''FOO'', mac_nOperand = nOp, mac_aParms = [''A''], mac_aDefaults = [],
             mac_aValues = [], mac_sText = ''IRP A,<EXP 1>'', mac_nLine = 1\<rparr>)
      ''IRP'' (''A,<EXP 1>'' @ [CHR 0x0D, CHR 0x0A])
     = (case getValues st None of
          Inl e \<Rightarrow> Inl e
        | Inr (aValues, st1) \<Rightarrow>
            Inr (\<lparr>mh_name = ''?IRP'', mh_nOperand = int (length aValues), mh_aParms = [''A''],
                  mh_aValues = aValues, mh_open = ''<'',
                  mh_text = ''EXP 1>'' @ [CHR 0x0D, CHR 0x0A]\<rparr>, st1))
   \<and> parseResources E (throwsAt ''FOO'' (js_TypeError E ''split'')) PT
        ((macro10_init addr [] d)
           \<lparr>asLines := [''DEFINE FOO (A) <IRPC A,<EXP 1>>'', [CHR 0x0D, CHR 0x0A], ''FOO'']\<rparr>)
     = (- 1,
        (macro10_init addr [] d)
           \<lparr>asLines := [''DEFINE FOO (A) <IRPC A,<EXP 1>>'', [CHR 0x0D, CHR 0x0A], ''FOO''],
            nLine := 2, nError := - 1,
            host := d\<lparr>printed := printed d @ [js_TypeError E ''split'']\<rparr>\<rparr>)
   \<and> vars (host (snd (parseResources E PL PT' st'))) = vars (host st')"
  using defMacro_IRPC_missing_value [of E getValues st nOp]
    defMacro_IRP_missing_value [of E getValues st nOp]
    parseResources_prints_TypeError [of E PT addr d]
    parseResources_vars [of E PL PT' st']
  by (intro conjI)
section \<open>Halfwords, EXP and XWD\<close>

text \<open>
  C10. In the double-comma form an empty half counts as 0. For every non-empty text
  \<open>R\<close> for which \<open>,,R\<close> is of the double-comma form (the regular expression of
  \<open>parseExpression\<close> matches it, which it does exactly when \<open>R\<close> has no comma),
  \<open>,,R\<close> evaluates as \<open>R\<close> does, with the value truncated to 18 unsigned bits; an
  error of \<open>R\<close> is the error of \<open>,,R\<close>. For every such \<open>L\<close>, \<open>L,,\<close> evaluates
  to the value of \<open>L\<close> truncated to 18 unsigned bits and multiplied by 2^18. With both
  halves empty the value is 0.
\<close>

theorem parseExpression_empty_half:
  "(matchDoubleComma ('',,'' @ R) \<noteq> None \<longrightarrow> R \<noteq> [] \<longrightarrow>
      parseExpression E st ('',,'' @ R) f n =
        (case parseExpression E st R f n of
           Inl e \<Rightarrow> Inl e
         | Inr (None, st') \<Rightarrow> Inr (None, st')
         | Inr (Some v, st') \<Rightarrow> Inr (Some (dbg_truncate v 18 True), st')))
   \<and> (matchDoubleComma (L @ '',,'') \<noteq> None \<longrightarrow> L \<noteq> [] \<longrightarrow>
      parseExpression E st (L @ '',,'') f n =
        (case parseExpression E st L f n of
           Inl e \<Rightarrow> Inl e
         | Inr (None, st') \<Rightarrow> Inr (None, st')
         | Inr (Some v, st') \<Rightarrow> Inr (Some (dbg_truncate v 18 True * 2 ^ 18), st')))
   \<and> parseExpression E st '',,'' f n = Inr (Some 0, st)"
proof (intro conjI impI)
  assume "matchDoubleComma ('',,'' @ R) \<noteq> None" "R \<noteq> []"
  then have "CHR '','' \<notin> set R" "R \<noteq> []"
    using double_comma_form_right [of R] by blast+
  then show "parseExpression E st ('',,'' @ R) f n =
        (case parseExpression E st R f n of
           Inl e \<Rightarrow> Inl e
         | Inr (None, st') \<Rightarrow> Inr (None, st')
         | Inr (Some v, st') \<Rightarrow> Inr (Some (dbg_truncate v 18 True), st'))"
    using parseExpression_halves [of "[]" R E st f n]
    by (simp add: dbg_truncate_def split: sum.splits prod.splits option.splits)
next
  assume "matchDoubleComma (L @ '',,'') \<noteq> None" "L \<noteq> []"
  then have "CHR '','' \<notin> set L" "L \<noteq> []"
    using double_comma_form_left [of L] by blast+
  then show "parseExpression E st (L @ '',,'') f n =
        (case parseExpression E st L f n of
           Inl e \<Rightarrow> Inl e
         | Inr (None, st') \<Rightarrow> Inr (None, st')
         | Inr (Some v, st') \<Rightarrow> Inr (Some (dbg_truncate v 18 True * 2 ^ 18), st'))"
    using parseExpression_halves [of L "[]" E st f n]
    by (simp add: dbg_truncate_def split: sum.splits prod.splits option.splits)
next
  show "parseExpression E st '',,'' f n = Inr (Some 0, st)"
    using parseExpression_halves [of "[]" "[]" E st f n] by (simp add: dbg_truncate_def)
qed

text \<open>
  The witness: with the example host, \<open>1777777\<close> is 524287, \<open>,,1777777\<close> is its low
  18 bits 262143, and \<open>1777777,,\<close> is 262143 * 2^18.
\<close>

theorem parseExpression_empty_half_witness:
  "matchDoubleComma ('',,'' @ ''1777777'') \<noteq> None \<and> matchDoubleComma (''1777777'' @ '',,'') \<noteq> None
   \<and> ''1777777'' \<noteq> []
   \<and> parseExpression demo_env (macro10_init None [] demo_dbg) ''1777777'' True None
       = Inr (Some 524287, macro10_init None [] demo_dbg)
   \<and> parseExpression demo_env (macro10_init None [] demo_dbg) '',,1777777'' True None
       = Inr (Some 262143, macro10_init None [] demo_dbg)
   \<and> parseExpression demo_env (macro10_init None [] demo_dbg) ''1777777,,'' True None
       = Inr (Some (262143 * 2 ^ 18), macro10_init None [] demo_dbg)"
proof -
  let ?st = "macro10_init None [] demo_dbg"
  have c: "matchDoubleComma ('',,'' @ ''1777777'') \<noteq> None"
    "matchDoubleComma (''1777777'' @ '',,'') \<noteq> None" "''1777777'' \<noteq> []"
    by (code_simp, code_simp, simp)
  have m: "matchDoubleComma ''1777777'' = None" by code_simp
  have t: "demo_value (hostText demo_env ?st ''1777777'' None) = Some 524287" by code_simp
  have p: "parseExpression demo_env ?st ''1777777'' True None = Inr (Some 524287, ?st)"
    by (rule parseExpression_plain [OF m t])
  have r: "parseExpression demo_env ?st ('',,'' @ ''1777777'') True None = Inr (Some 262143, ?st)"
    using parseExpression_empty_half [where R = "''1777777''" and E = demo_env and st = ?st
        and f = True and n = None] c(1,3)
    by (simp add: p dbg_truncate_def)
  have l: "parseExpression demo_env ?st (''1777777'' @ '',,'') True None
      = Inr (Some (262143 * 2 ^ 18), ?st)"
    using parseExpression_empty_half [where L = "''1777777''" and E = demo_env and st = ?st
        and f = True and n = None] c(2,3)
    by (simp add: p dbg_truncate_def)
  show ?thesis using c p r l by simp
qed


text \<open>
  Where the left operand has no comma: for every such text \<open>a\<close> and every \<open>b\<close>,
  \<open>XWD a,b\<close> does what \<open>EXP a,,b\<close> does: the same word, the same fixup, the same
  error. If \<open>b\<close> has no comma either and both halves are non-empty and evaluate, the
  word emitted is the value of \<open>a\<close> truncated to 18 unsigned bits times 2^18, plus the
  value of \<open>b\<close> truncated to 18 unsigned bits, with the host's \<open>sUndefined\<close> as the
  fixup.
\<close>

lemma defXWD_comma_free:
  assumes "CHR '','' \<notin> set a"
  shows "defXWD E st (a @ '','' @ b) = defEXP E st (a @ '',,'' @ b)
     \<and> (CHR '','' \<notin> set b \<longrightarrow> a \<noteq> [] \<longrightarrow> b \<noteq> [] \<longrightarrow>
          parseExpression E st a True None = Inr (Some va, st') \<longrightarrow>
          parseExpression E st' b True None = Inr (Some vb, st'') \<longrightarrow>
          defEXP E st (a @ '',,'' @ b)
            = Inr (genWord E st'' (dbg_truncate va 18 True * 2 ^ 18 + dbg_truncate vb 18 True)
                     (sUndefined (host st''))))"
proof (intro conjI impI)
  show "defXWD E st (a @ '','' @ b) = defEXP E st (a @ '',,'' @ b)"
    using replaceFirstComma_split [OF assms, of b] by (simp add: defXWD_def)
next
  assume b: "CHR '','' \<notin> set b" and ne: "a \<noteq> []" "b \<noteq> []"
    and pa: "parseExpression E st a True None = Inr (Some va, st')"
    and pb: "parseExpression E st' b True None = Inr (Some vb, st'')"
  have "parseExpression E st (a @ '',,'' @ b) True None
      = Inr (Some (dbg_truncate va 18 True * 2 ^ 18 + dbg_truncate vb 18 True), st'')"
    using parseExpression_halves [OF assms b, of E st True None] ne pa pb by simp
  then show "defEXP E st (a @ '',,'' @ b)
            = Inr (genWord E st'' (dbg_truncate va 18 True * 2 ^ 18 + dbg_truncate vb 18 True)
                     (sUndefined (host st'')))"
    by (simp add: defEXP_def)
qed

text \<open>
  The example of the specification, on the example host: \<open>XWD 1,2\<close> and
  \<open>EXP 1,,2\<close> both emit the word (1 << 18) | 2 at
  location 0.
\<close>

lemma defXWD_1_2:
  "CHR '','' \<notin> set ''1'' \<and> CHR '','' \<notin> set ''2''
   \<and> defXWD demo_env (macro10_init None [] demo_dbg) ''1,2''
       = defEXP demo_env (macro10_init None [] demo_dbg) ''1,,2''
   \<and> defEXP demo_env (macro10_init None [] demo_dbg) ''1,,2''
       = Inr ((macro10_init None [] demo_dbg)\<lparr>aWords := js_set js_empty 0 (1 * 2 ^ 18 + 2), nLocation := 1\<rparr>)"
proof -
  let ?st = "macro10_init None [] demo_dbg"
  have c: "CHR '','' \<notin> set ''1''" "CHR '','' \<notin> set ''2''" "''1'' \<noteq> []" "''2'' \<noteq> []"
    by simp_all
  have m: "matchDoubleComma ''1'' = None" "matchDoubleComma ''2'' = None" by code_simp+
  have t: "demo_value (hostText demo_env ?st ''1'' None) = Some 1"
    "demo_value (hostText demo_env ?st ''2'' None) = Some 2" by code_simp+
  have p: "parseExpression demo_env ?st ''1'' True None = Inr (Some 1, ?st)"
    "parseExpression demo_env ?st ''2'' True None = Inr (Some 2, ?st)"
    by (rule parseExpression_plain [OF m(1) t(1)], rule parseExpression_plain [OF m(2) t(2)])
  note T = defXWD_comma_free [OF c(1), where b = "''2''" and E = demo_env and st = ?st
      and va = 1 and st' = ?st and vb = 2 and st'' = ?st]
  have x: "defXWD demo_env ?st (''1'' @ '','' @ ''2'') = defEXP demo_env ?st (''1'' @ '',,'' @ ''2'')"
    using T by blast
  have e: "defEXP demo_env ?st (''1'' @ '',,'' @ ''2'')
      = Inr (genWord demo_env ?st (dbg_truncate 1 18 True * 2 ^ 18 + dbg_truncate 2 18 True)
               (sUndefined (host ?st)))"
    using T c p by blast
  have g: "genWord demo_env ?st (dbg_truncate 1 18 True * 2 ^ 18 + dbg_truncate 2 18 True)
               (sUndefined (host ?st))
      = ?st\<lparr>aWords := js_set js_empty 0 (1 * 2 ^ 18 + 2), nLocation := 1\<rparr>"
    by (simp add: dbg_truncate_def genWord_plain emit_word_def macro10_init_def demo_dbg_def)
  show ?thesis using c x e g by simp
qed


section \<open>Where the code departs from the specification\<close>

text \<open>
  C1. The code compares fixup \<open>n\<close> of a literal with the fixup at the start of the
  candidate block, \<open>aFixups[nLocation]\<close>, not with \<open>aFixups[nLocation + n]\<close>. So two
  identical two-word literals whose first word has a fixup and whose second has none get
  two addresses (0 and 2, four words emitted), and a literal with the fixups A, A is
  merged into a block whose fixups are A, B (both names at address 0, two words emitted).
\<close>

theorem literal_fixup_compared_at_block_start:
  "literal_addresses (processLiterals demo_env 0 (macro10_init None [] demo_dbg)
      [two_word_literal ''?00001'' [Some ''A''], two_word_literal ''?00002'' [Some ''A'']])
     = (Some 0, Some 2, 4)
   \<and> literal_addresses (processLiterals demo_env 0 (macro10_init None [] demo_dbg)
      [two_word_literal ''?00001'' [Some ''A'', Some ''B''],
       two_word_literal ''?00002'' [Some ''A'', Some ''A'']])
     = (Some 0, Some 0, 2)"
  by code_simp

text \<open>
  C3. \<open>aWords[nLocation] |= (w & I_FIELD)\<close> is a 32-bit operation: it cuts the 36-bit
  word at the location to its low 32 bits. For the example of the source's own comment
  the word left at the location is 0o000124000000, where the formula over 36-bit words
  gives 0o200124000000 (MOVE 2,@SYM+BOL(4)): the opcode is gone. The fixups are joined
  with +. For every choice of field masks a base word of 2^34 and an operand word of 0
  leave 0.
\<close>

theorem opdef_merge_loses_opcode:
  "opdef_outcome (parseMacro_OPDEF demo_env opdef_demo_parseText (macro10_init None [] demo_dbg)
      \<lparr>mac_name = ''CAL'', mac_nOperand = - 2, mac_aParms = [], mac_aDefaults = [],
        mac_aValues = [], mac_sText = ''MOVE 1,@SYM(2)'', mac_nLine = 1\<rparr> ''CAL'' ''1,BOL(2)'')
     = (Some 0x1500000, Some ''SYM+BOL'', 1)
   \<and> (0x400C80000 + (0x880000 AND (A_FIELD demo_env OR X_FIELD demo_env OR Y_FIELD demo_env)))
        OR (0x880000 AND I_FIELD demo_env) = (0x401500000 :: int)
   \<and> opdefMergeWord E (Some (2 ^ 34)) 0 = 0"
proof (intro conjI)
  show "opdef_outcome (parseMacro_OPDEF demo_env opdef_demo_parseText (macro10_init None [] demo_dbg)
      \<lparr>mac_name = ''CAL'', mac_nOperand = - 2, mac_aParms = [], mac_aDefaults = [],
        mac_aValues = [], mac_sText = ''MOVE 1,@SYM(2)'', mac_nLine = 1\<rparr> ''CAL'' ''1,BOL(2)'')
     = (Some 0x1500000, Some ''SYM+BOL'', 1)"
    by code_simp
  show "(0x400C80000 + (0x880000 AND (A_FIELD demo_env OR X_FIELD demo_env OR Y_FIELD demo_env)))
        OR (0x880000 AND I_FIELD demo_env) = (0x401500000 :: int)"
    by (simp add: demo_env_def)
  show "opdefMergeWord E (Some (2 ^ 34)) 0 = 0"
    by (simp add: opdefMergeWord_def js_or_def js_and_def)
qed

text \<open>
  C6. The character after a replaced period is part of the match, so a period that
  directly follows a replaced period is not looked at: of \<open>..\<close> only the first period
  becomes the location. Where the periods are apart, as in \<open>.+.\<close>, both do.
\<close>

theorem period_after_period_not_replaced:
  "hostText E st ''..'' nLoc = dbg_toStrBase E (currentLocation st nLoc) @ ''.''
   \<and> hostText E st ''.+.'' nLoc
       = dbg_toStrBase E (currentLocation st nLoc) @ ''+'' @ dbg_toStrBase E (currentLocation st nLoc)"
  by (simp add: hostText_def rewritePseudos_def matchPseudo_def is_digit_def)



end
